theory Spec2Isabelle
  imports Complex_Main "HOL-Library.Char_ord" "HOL-Library.List_Lexorder"
begin

section \<open>Strings (packages strings and fmt)\<close>

text \<open>
  Go strings are byte sequences and are modelled as \<open>string\<close>. \<open>strings.ToLower\<close> is
  modelled on the ASCII letters: a byte from \<open>A\<close> (65) to \<open>Z\<close> (90) gets bit 5 set, which
  adds 32; the other bytes are kept.
\<close>

definition toLower_byte :: "char \<Rightarrow> char" where
  "toLower_byte c =
     (case c of Char b0 b1 b2 b3 b4 b5 b6 b7 \<Rightarrow>
        if 65 \<le> (of_char c :: nat) \<and> (of_char c :: nat) \<le> 90
        then Char b0 b1 b2 b3 b4 True b6 b7 else c)"

definition ToLower :: "string \<Rightarrow> string" where
  "ToLower s = map toLower_byte s"

fun HasPrefix :: "string \<Rightarrow> string \<Rightarrow> bool" where
  "HasPrefix s [] = True"
| "HasPrefix [] (p # ps) = False"
| "HasPrefix (c # s) (p # ps) = (c = p \<and> HasPrefix s ps)"

text \<open>\<open>strings.Contains s substr\<close>: \<open>substr\<close> occurs in \<open>s\<close> as a contiguous block.\<close>

fun Contains :: "string \<Rightarrow> string \<Rightarrow> bool" where
  "Contains [] substr = (substr = [])"
| "Contains (c # s) substr = (HasPrefix (c # s) substr \<or> Contains s substr)"

section \<open>Errors, files and JSON documents (packages fmt, os, encoding/json)\<close>

text \<open>
  Go errors are values. \<open>Errorf msg err\<close> is \<open>fmt.Errorf(msg + ": %v", err)\<close>, and
  \<open>ErrorString msg\<close> an error that carries only a message.
\<close>

datatype error =
    ErrorString string
  | Errorf string error
  | PathError string
  | SyntaxError
  | UnmarshalTypeError string

text \<open>
  A path of the file system is absent (\<open>os.Stat\<close> fails), present but unreadable
  (\<open>os.ReadFile\<close> fails), or holds bytes.
\<close>

datatype file_state = Absent | Unreadable | Content string

type_synonym filesystem = "string \<Rightarrow> file_state"

definition os_Stat :: "filesystem \<Rightarrow> string \<Rightarrow> bool" where
  "os_Stat fs path = (fs path \<noteq> Absent)"

definition os_ReadFile :: "filesystem \<Rightarrow> string \<Rightarrow> error + string" where
  "os_ReadFile fs path = (case fs path of Content data \<Rightarrow> Inr data | _ \<Rightarrow> Inl (PathError path))"

definition filepath_Join :: "string \<Rightarrow> string \<Rightarrow> string" where
  "filepath_Join dir name = (if dir = [] then name else dir @ ''/'' @ name)"

text \<open>
  A JSON document. An integer literal (\<open>JInt\<close>) is kept apart from the other number
  literals (\<open>JFrac\<close>), since only the former decodes into a Go \<open>int\<close>.
\<close>

datatype json =
    JNull
  | JBool bool
  | JInt int
  | JFrac rat
  | JString string
  | JArray "json list"
  | JObject "(string \<times> json) list"

fun json_kind :: "json \<Rightarrow> string" where
  "json_kind JNull = ''null''"
| "json_kind (JBool b) = ''bool''"
| "json_kind (JInt i) = ''number''"
| "json_kind (JFrac r) = ''number''"
| "json_kind (JString s) = ''string''"
| "json_kind (JArray js) = ''array''"
| "json_kind (JObject kvs) = ''object''"

text \<open>
  \<open>json.Unmarshal\<close> is type directed: one decoder per Go type, taking the JSON value and
  the current Go value. \<open>null\<close> leaves a string, number, boolean or struct as it is and
  makes a slice nil; a JSON value of another kind than the Go type is an
  \<open>UnmarshalTypeError\<close>. Every caller drops the decoded value when an error is returned,
  so a decoder returns the error or the value.
\<close>

definition decode_string :: "json \<Rightarrow> string \<Rightarrow> error + string" where
  "decode_string j cur =
     (case j of JString s \<Rightarrow> Inr s | JNull \<Rightarrow> Inr cur
      | _ \<Rightarrow> Inl (UnmarshalTypeError (json_kind j)))"

definition decode_float64 :: "json \<Rightarrow> rat \<Rightarrow> error + rat" where
  "decode_float64 j cur =
     (case j of JInt i \<Rightarrow> Inr (of_int i) | JFrac r \<Rightarrow> Inr r | JNull \<Rightarrow> Inr cur
      | _ \<Rightarrow> Inl (UnmarshalTypeError (json_kind j)))"

definition decode_int :: "json \<Rightarrow> int \<Rightarrow> error + int" where
  "decode_int j cur =
     (case j of
        JInt i \<Rightarrow> if - (2 ^ 63) \<le> i \<and> i < 2 ^ 63 then Inr i
                  else Inl (UnmarshalTypeError (json_kind j))
      | JNull \<Rightarrow> Inr cur
      | _ \<Rightarrow> Inl (UnmarshalTypeError (json_kind j)))"

definition decode_bool :: "json \<Rightarrow> bool \<Rightarrow> error + bool" where
  "decode_bool j cur =
     (case j of JBool b \<Rightarrow> Inr b | JNull \<Rightarrow> Inr cur
      | _ \<Rightarrow> Inl (UnmarshalTypeError (json_kind j)))"

text \<open>A JSON array into a slice: the slice is reset and each element appended.\<close>

fun decode_elems :: "(json \<Rightarrow> 'a \<Rightarrow> error + 'a) \<Rightarrow> 'a \<Rightarrow> json list \<Rightarrow> error + 'a list" where
  "decode_elems dec zero [] = Inr []"
| "decode_elems dec zero (j # js) =
     (case dec j zero of
        Inl err \<Rightarrow> Inl err
      | Inr v \<Rightarrow> (case decode_elems dec zero js of Inl err \<Rightarrow> Inl err | Inr vs \<Rightarrow> Inr (v # vs)))"

definition decode_slice :: "(json \<Rightarrow> 'a \<Rightarrow> error + 'a) \<Rightarrow> 'a \<Rightarrow> json \<Rightarrow> error + 'a list" where
  "decode_slice dec zero j =
     (case j of JArray js \<Rightarrow> decode_elems dec zero js | JNull \<Rightarrow> Inr []
      | _ \<Rightarrow> Inl (UnmarshalTypeError (json_kind j)))"

text \<open>
  A JSON object into a struct: the members are taken in document order, each stored
  into the field whose \<open>json\<close> tag equals the key up to letter case; a key that matches
  no field is skipped.
\<close>

definition json_field :: "string \<Rightarrow> string \<Rightarrow> bool" where
  "json_field key tag = (ToLower key = ToLower tag)"

fun decode_fields :: "(string \<Rightarrow> json \<Rightarrow> 'a \<Rightarrow> error + 'a) \<Rightarrow> (string \<times> json) list \<Rightarrow> 'a \<Rightarrow> error + 'a" where
  "decode_fields field [] cur = Inr cur"
| "decode_fields field ((key, v) # kvs) cur =
     (case field key v cur of Inl err \<Rightarrow> Inl err | Inr cur' \<Rightarrow> decode_fields field kvs cur')"

definition decode_struct :: "(string \<Rightarrow> json \<Rightarrow> 'a \<Rightarrow> error + 'a) \<Rightarrow> json \<Rightarrow> 'a \<Rightarrow> error + 'a" where
  "decode_struct field j cur =
     (case j of JObject kvs \<Rightarrow> decode_fields field kvs cur | JNull \<Rightarrow> Inr cur
      | _ \<Rightarrow> Inl (UnmarshalTypeError (json_kind j)))"

text \<open>
  \<open>json.Unmarshal data &v\<close>. The syntax check of the bytes is the parameter \<open>parse\<close>
  (\<open>None\<close>: the bytes are not valid JSON), which the standard library runs before it
  decodes anything.
\<close>

definition json_Unmarshal ::
  "(string \<Rightarrow> json option) \<Rightarrow> (json \<Rightarrow> 'a \<Rightarrow> error + 'a) \<Rightarrow> string \<Rightarrow> 'a \<Rightarrow> error + 'a" where
  "json_Unmarshal parse dec data v =
     (case parse data of None \<Rightarrow> Inl SyntaxError | Some j \<Rightarrow> dec j v)"

section \<open>Data model (pkg/models, pkg/reporter, pkg/ai)\<close>

text \<open>
  \<open>models.Severity\<close> is a named string type, not a closed enumeration, so a severity is
  any string; the five constants of pkg/reporter are the values the aggregator
  recognises. \<open>float64\<close> is idealised as \<open>rat\<close> (the scores are sums of 1.0 and 0.5
  divided by such a sum), and \<open>time.Time\<close> as an integer with zero value 0. A nil slice
  and an empty slice are both the empty list. Field names shared by two structs are
  written qualified (\<open>Rule.ID\<close>); the unqualified ones are those of \<open>Finding\<close>.
\<close>

type_synonym Severity = string

definition Critical :: Severity where "Critical = ''CRITICAL''"
definition High :: Severity where "High = ''HIGH''"
definition Medium :: Severity where "Medium = ''MEDIUM''"
definition Low :: Severity where "Low = ''LOW''"
definition Info :: Severity where "Info = ''INFO''"

record Rule =
  ID :: string
  Name :: string
  Pattern :: string
  Severity :: string
  Category :: string
  Keywords :: "string list"
  Description :: string

definition Rule_zero :: Rule where
  "Rule_zero = \<lparr>Rule.ID = [], Name = [], Pattern = [], Rule.Severity = [], Rule.Category = [],
     Keywords = [], Rule.Description = []\<rparr>"

record ModelConfig =
  Threshold :: rat
  BatchSize :: int
  EnableCache :: bool

definition ModelConfig_zero :: ModelConfig where
  "ModelConfig_zero = \<lparr>ModelConfig.Threshold = 0, BatchSize = 0, EnableCache = False\<rparr>"

record CategoryFeatures =
  Patterns :: "string list"
  Keywords :: "string list"
  Weights :: "rat list"
  Threshold :: rat

definition CategoryFeatures_zero :: CategoryFeatures where
  "CategoryFeatures_zero =
     \<lparr>Patterns = [], CategoryFeatures.Keywords = [], Weights = [], CategoryFeatures.Threshold = 0\<rparr>"

record DetectorConfig =
  Confidence :: rat
  MaxFindings :: int

definition DetectorConfig_zero :: DetectorConfig where
  "DetectorConfig_zero = \<lparr>DetectorConfig.Confidence = 0, MaxFindings = 0\<rparr>"

record Finding =
  ID :: string
  Title :: string
  Description :: string
  Severity :: Severity
  Category :: string
  Location :: string
  CodeSnippet :: string
  Timestamp :: int
  Remediation :: string
  Confidence :: rat

text \<open>The zero value \<open>models.Finding{}\<close>.\<close>

definition Finding_zero :: Finding where
  "Finding_zero = \<lparr>ID = [], Title = [], Description = [], Severity = [], Category = [],
     Location = [], CodeSnippet = [], Timestamp = 0, Remediation = [], Confidence = 0\<rparr>"

record Stats =
  TotalFindings :: int
  CriticalCount :: int
  HighCount :: int
  MediumCount :: int
  LowCount :: int
  InfoCount :: int

definition Stats_zero :: Stats where
  "Stats_zero = \<lparr>TotalFindings = 0, CriticalCount = 0, HighCount = 0, MediumCount = 0,
     LowCount = 0, InfoCount = 0\<rparr>"

text \<open>
  A Go map is a partial function; the order in which a \<open>range\<close> statement visits its
  keys is chosen by the runtime at each loop, so every loop over a map takes that
  order as an argument: a list that enumerates the keys once each.
\<close>

definition iteration_order :: "string list \<Rightarrow> (string \<rightharpoonup> 'v) \<Rightarrow> bool" where
  "iteration_order order m = (distinct order \<and> set order = dom m)"

definition range_map :: "string list \<Rightarrow> (string \<rightharpoonup> 'v) \<Rightarrow> (string \<times> 'v) list" where
  "range_map order m = List.map_filter (\<lambda>k. map_option (Pair k) (m k)) order"

record Classifier =
  modelPath :: string
  threshold :: rat
  categories :: "string list"
  initialized :: bool
  modelConfig :: ModelConfig
  categoryData :: "string \<rightharpoonup> CategoryFeatures"

record Detector =
  modelPath :: string
  confidence :: rat
  maxFindings :: int
  initialized :: bool
  rules :: "Rule list"

section \<open>Decoders of the structs read from JSON\<close>

definition decode_Rule_field :: "string \<Rightarrow> json \<Rightarrow> Rule \<Rightarrow> error + Rule" where
  "decode_Rule_field key v r =
     (if json_field key ''id'' then
        map_sum id (\<lambda>s. r\<lparr>Rule.ID := s\<rparr>) (decode_string v (Rule.ID r))
      else if json_field key ''name'' then
        map_sum id (\<lambda>s. r\<lparr>Name := s\<rparr>) (decode_string v (Name r))
      else if json_field key ''pattern'' then
        map_sum id (\<lambda>s. r\<lparr>Pattern := s\<rparr>) (decode_string v (Pattern r))
      else if json_field key ''severity'' then
        map_sum id (\<lambda>s. r\<lparr>Rule.Severity := s\<rparr>) (decode_string v (Rule.Severity r))
      else if json_field key ''category'' then
        map_sum id (\<lambda>s. r\<lparr>Rule.Category := s\<rparr>) (decode_string v (Rule.Category r))
      else if json_field key ''keywords'' then
        map_sum id (\<lambda>ks. r\<lparr>Rule.Keywords := ks\<rparr>) (decode_slice decode_string [] v)
      else if json_field key ''description'' then
        map_sum id (\<lambda>s. r\<lparr>Rule.Description := s\<rparr>) (decode_string v (Rule.Description r))
      else Inr r)"

definition decode_Rule :: "json \<Rightarrow> Rule \<Rightarrow> error + Rule" where
  "decode_Rule = decode_struct decode_Rule_field"

text \<open>The target of \<open>loadRules\<close>: \<open>var rules []Rule\<close>.\<close>

definition decode_Rules :: "json \<Rightarrow> Rule list \<Rightarrow> error + Rule list" where
  "decode_Rules j cur = decode_slice decode_Rule Rule_zero j"

text \<open>The target of \<open>loadCategories\<close>: a struct with the one field \<open>Rules\<close>, tagged \<open>rules\<close>.\<close>

record rulesData =
  Rules :: "Rule list"

definition decode_rulesData_field :: "string \<Rightarrow> json \<Rightarrow> rulesData \<Rightarrow> error + rulesData" where
  "decode_rulesData_field key v rd =
     (if json_field key ''rules'' then
        map_sum id (\<lambda>rs. rd\<lparr>Rules := rs\<rparr>) (decode_slice decode_Rule Rule_zero v)
      else Inr rd)"

definition decode_rulesData :: "json \<Rightarrow> rulesData \<Rightarrow> error + rulesData" where
  "decode_rulesData = decode_struct decode_rulesData_field"

definition decode_ModelConfig_field :: "string \<Rightarrow> json \<Rightarrow> ModelConfig \<Rightarrow> error + ModelConfig" where
  "decode_ModelConfig_field key v m =
     (if json_field key ''threshold'' then
        map_sum id (\<lambda>x. m\<lparr>ModelConfig.Threshold := x\<rparr>) (decode_float64 v (ModelConfig.Threshold m))
      else if json_field key ''batchSize'' then
        map_sum id (\<lambda>x. m\<lparr>BatchSize := x\<rparr>) (decode_int v (BatchSize m))
      else if json_field key ''enableCache'' then
        map_sum id (\<lambda>x. m\<lparr>EnableCache := x\<rparr>) (decode_bool v (EnableCache m))
      else Inr m)"

definition decode_ModelConfig :: "json \<Rightarrow> ModelConfig \<Rightarrow> error + ModelConfig" where
  "decode_ModelConfig = decode_struct decode_ModelConfig_field"

text \<open>The target of \<open>Classifier.loadConfig\<close>: \<open>ModelSettings\<close> and \<open>Categories\<close>.\<close>

record classifierConfig =
  ModelSettings :: ModelConfig
  Categories :: "string list"

definition classifierConfig_zero :: classifierConfig where
  "classifierConfig_zero = \<lparr>ModelSettings = ModelConfig_zero, Categories = []\<rparr>"

definition decode_classifierConfig_field ::
  "string \<Rightarrow> json \<Rightarrow> classifierConfig \<Rightarrow> error + classifierConfig" where
  "decode_classifierConfig_field key v cfg =
     (if json_field key ''modelSettings'' then
        map_sum id (\<lambda>x. cfg\<lparr>ModelSettings := x\<rparr>) (decode_ModelConfig v (ModelSettings cfg))
      else if json_field key ''categories'' then
        map_sum id (\<lambda>x. cfg\<lparr>Categories := x\<rparr>) (decode_slice decode_string [] v)
      else Inr cfg)"

definition decode_classifierConfig :: "json \<Rightarrow> classifierConfig \<Rightarrow> error + classifierConfig" where
  "decode_classifierConfig = decode_struct decode_classifierConfig_field"

definition decode_DetectorConfig_field ::
  "string \<Rightarrow> json \<Rightarrow> DetectorConfig \<Rightarrow> error + DetectorConfig" where
  "decode_DetectorConfig_field key v cfg =
     (if json_field key ''confidence'' then
        map_sum id (\<lambda>x. cfg\<lparr>DetectorConfig.Confidence := x\<rparr>)
          (decode_float64 v (DetectorConfig.Confidence cfg))
      else if json_field key ''maxFindings'' then
        map_sum id (\<lambda>x. cfg\<lparr>MaxFindings := x\<rparr>) (decode_int v (MaxFindings cfg))
      else Inr cfg)"

definition decode_DetectorConfig :: "json \<Rightarrow> DetectorConfig \<Rightarrow> error + DetectorConfig" where
  "decode_DetectorConfig = decode_struct decode_DetectorConfig_field"

section \<open>Classifier (pkg/ai)\<close>

text \<open>
  A method with a pointer receiver returns the updated receiver next to its result. A
  run-time panic (an index or a slice bound out of range) is the outcome \<open>None\<close> of a
  function that returns an \<open>option\<close>.
\<close>

definition Classifier_loadConfig ::
  "(string \<Rightarrow> json option) \<Rightarrow> filesystem \<Rightarrow> Classifier \<Rightarrow> string \<Rightarrow> Classifier \<times> error option" where
  "Classifier_loadConfig parse fs c path =
     (case os_ReadFile fs path of
        Inl err \<Rightarrow> (c, Some err)
      | Inr data \<Rightarrow>
          (case json_Unmarshal parse decode_classifierConfig data classifierConfig_zero of
             Inl err \<Rightarrow> (c, Some err)
           | Inr decoded \<Rightarrow>
               (c\<lparr>modelConfig := ModelSettings decoded,
                  categories := Categories decoded,
                  threshold := ModelConfig.Threshold (ModelSettings decoded)\<rparr>, None)))"

text \<open>
  The body of the loop of \<open>loadCategories\<close>; reading a key that the map does not hold
  gives the zero \<open>CategoryFeatures\<close>.
\<close>

definition loadCategories_body ::
  "rat \<Rightarrow> (string \<rightharpoonup> CategoryFeatures) \<Rightarrow> Rule \<Rightarrow> (string \<rightharpoonup> CategoryFeatures)" where
  "loadCategories_body thr data rule =
     (let features = (case data (Rule.Category rule) of
                        None \<Rightarrow> CategoryFeatures_zero | Some f \<Rightarrow> f);
          features = features\<lparr>Patterns := Patterns features @ [Pattern rule]\<rparr>;
          features = features\<lparr>CategoryFeatures.Keywords :=
                       CategoryFeatures.Keywords features @ Rule.Keywords rule\<rparr>;
          features = features\<lparr>Weights := Weights features @ [1]\<rparr>;
          features = features\<lparr>CategoryFeatures.Threshold := thr\<rparr>
      in data(Rule.Category rule \<mapsto> features))"

definition loadCategories ::
  "(string \<Rightarrow> json option) \<Rightarrow> filesystem \<Rightarrow> Classifier \<Rightarrow> string \<Rightarrow> Classifier \<times> error option" where
  "loadCategories parse fs c path =
     (case os_ReadFile fs path of
        Inl err \<Rightarrow> (c, Some err)
      | Inr data \<Rightarrow>
          (case json_Unmarshal parse decode_rulesData data \<lparr>Rules = []\<rparr> of
             Inl err \<Rightarrow> (c, Some err)
           | Inr decoded \<Rightarrow>
               (c\<lparr>categoryData :=
                    foldl (loadCategories_body (threshold c)) (categoryData c) (Rules decoded)\<rparr>,
                None)))"

definition Classifier_initialize ::
  "(string \<Rightarrow> json option) \<Rightarrow> filesystem \<Rightarrow> Classifier \<Rightarrow> Classifier \<times> error option" where
  "Classifier_initialize parse fs c =
     (let configPath = filepath_Join (Classifier.modelPath c) ''config.json'' in
      case Classifier_loadConfig parse fs c configPath of
        (c, Some err) \<Rightarrow> (c, Some (Errorf ''failed to load config'' err))
      | (c, None) \<Rightarrow>
          (let categoryPath = filepath_Join (Classifier.modelPath c) ''rules.json'' in
           case loadCategories parse fs c categoryPath of
             (c, Some err) \<Rightarrow> (c, Some (Errorf ''failed to load categories'' err))
           | (c, None) \<Rightarrow> (c\<lparr>Classifier.initialized := True\<rparr>, None)))"

text \<open>\<open>NewClassifier\<close> returns the classifier whether \<open>initialize\<close> failed or not.\<close>

definition NewClassifier :: "(string \<Rightarrow> json option) \<Rightarrow> filesystem \<Rightarrow> string \<Rightarrow> Classifier" where
  "NewClassifier parse fs dir =
     (let c = \<lparr>Classifier.modelPath = dir, threshold = 4 / 5, categories = [],
                Classifier.initialized = False, modelConfig = ModelConfig_zero,
                categoryData = Map.empty\<rparr>
      in case Classifier_initialize parse fs c of (c, Some err) \<Rightarrow> c | (c, None) \<Rightarrow> c)"

text \<open>
  The pattern loop of \<open>calculateScore\<close>, at index \<open>i\<close> with the score so far:
  \<open>features.Weights[i]\<close> panics when \<open>i\<close> is not an index of the weights.
\<close>

fun calculateScore_patterns ::
  "string \<Rightarrow> string list \<Rightarrow> rat list \<Rightarrow> nat \<Rightarrow> rat \<Rightarrow> rat option" where
  "calculateScore_patterns snippet [] weights i score = Some score"
| "calculateScore_patterns snippet (pattern # rest) weights i score =
     (if Contains snippet pattern then
        (if i < length weights
         then calculateScore_patterns snippet rest weights (Suc i) (score + weights ! i)
         else None)
      else calculateScore_patterns snippet rest weights (Suc i) score)"

fun calculateScore_keywords :: "string \<Rightarrow> string list \<Rightarrow> rat \<Rightarrow> rat" where
  "calculateScore_keywords description [] score = score"
| "calculateScore_keywords description (keyword # rest) score =
     calculateScore_keywords description rest
       (if Contains (ToLower description) (ToLower keyword) then score + 1 / 2 else score)"

definition calculateScore :: "Classifier \<Rightarrow> Finding \<Rightarrow> CategoryFeatures \<Rightarrow> rat option" where
  "calculateScore c finding features =
     (case calculateScore_patterns (CodeSnippet finding) (Patterns features) (Weights features) 0 0 of
        None \<Rightarrow> None
      | Some score \<Rightarrow>
          (let score = calculateScore_keywords (Description finding)
                         (CategoryFeatures.Keywords features) score;
               maxScore = of_nat (length (Patterns features))
                          + of_nat (length (CategoryFeatures.Keywords features)) * (1 / 2)
           in Some (if maxScore > 0 then score / maxScore else score)))"

text \<open>
  \<open>sort.Slice\<close> is modelled by the insertion sort that the library runs on a slice of at
  most twelve elements: each element in turn moves left while it is less than its left
  neighbour. \<open>sort_insert\<close> works on the sorted prefix held in reverse. On a longer slice
  the library promises only some arrangement ordered by the comparison, so that the first
  element is, there too, one of those with the greatest score.
\<close>

fun sort_insert :: "('a \<Rightarrow> 'a \<Rightarrow> bool) \<Rightarrow> 'a \<Rightarrow> 'a list \<Rightarrow> 'a list" where
  "sort_insert lt x [] = [x]"
| "sort_insert lt x (y # ys) = (if lt x y then y # sort_insert lt x ys else x # y # ys)"

definition sort_Slice :: "('a \<Rightarrow> 'a \<Rightarrow> bool) \<Rightarrow> 'a list \<Rightarrow> 'a list" where
  "sort_Slice lt xs = rev (foldl (\<lambda>done x. sort_insert lt x done) [] xs)"

definition getBestCategory :: "string list \<Rightarrow> (string \<rightharpoonup> rat) \<Rightarrow> string \<times> rat" where
  "getBestCategory order scores =
     (let entries = range_map order scores;
          entries = sort_Slice (\<lambda>a b. snd a > snd b) entries
      in case entries of [] \<Rightarrow> ([], 0) | best # _ \<Rightarrow> best)"

text \<open>The first loop of \<open>Classify\<close>, over the entries of \<open>categoryData\<close> as ranged.\<close>

fun Classify_scores ::
  "Classifier \<Rightarrow> Finding \<Rightarrow> (string \<times> CategoryFeatures) list \<Rightarrow> (string \<rightharpoonup> rat) \<Rightarrow> (string \<rightharpoonup> rat) option" where
  "Classify_scores c finding [] scores = Some scores"
| "Classify_scores c finding ((category, features) # rest) scores =
     (case calculateScore c finding features of
        None \<Rightarrow> None
      | Some score \<Rightarrow> Classify_scores c finding rest (scores(category \<mapsto> score)))"

text \<open>
  \<open>Classify c order1 order2 finding\<close>: \<open>order1\<close> is the order of the range over
  \<open>categoryData\<close>, \<open>order2\<close> that of the range over \<open>scores\<close> in \<open>getBestCategory\<close>. The
  result is the finding as the call leaves it and the error returned.
\<close>

definition Classify ::
  "Classifier \<Rightarrow> string list \<Rightarrow> string list \<Rightarrow> Finding \<Rightarrow> (Finding \<times> error option) option" where
  "Classify c order1 order2 finding =
     (if \<not> Classifier.initialized c then
        Some (finding, Some (ErrorString ''classifier not initialized''))
      else
        case Classify_scores c finding (range_map order1 (categoryData c)) Map.empty of
          None \<Rightarrow> None
        | Some scores \<Rightarrow>
            (case getBestCategory order2 scores of
               (bestCategory, bestScore) \<Rightarrow>
                 if bestScore \<ge> threshold c then
                   Some (finding\<lparr>Category := bestCategory, Confidence := bestScore\<rparr>, None)
                 else Some (finding, None)))"

section \<open>Detector (pkg/ai)\<close>

definition loadRules :: "(string \<Rightarrow> json option) \<Rightarrow> filesystem \<Rightarrow> string \<Rightarrow> error + Rule list" where
  "loadRules parse fs path =
     (case os_ReadFile fs path of
        Inl err \<Rightarrow> Inl err
      | Inr data \<Rightarrow>
          (case json_Unmarshal parse decode_Rules data [] of
             Inl err \<Rightarrow> Inl err
           | Inr decoded \<Rightarrow> Inr decoded))"

definition loadConfig ::
  "(string \<Rightarrow> json option) \<Rightarrow> filesystem \<Rightarrow> string \<Rightarrow> error + DetectorConfig" where
  "loadConfig parse fs path =
     (case os_ReadFile fs path of
        Inl err \<Rightarrow> Inl err
      | Inr data \<Rightarrow>
          (case json_Unmarshal parse decode_DetectorConfig data DetectorConfig_zero of
             Inl err \<Rightarrow> Inl err
           | Inr decoded \<Rightarrow> Inr decoded))"

text \<open>
  \<open>Detector.initialize\<close>: each of the two files is loaded only when \<open>os.Stat\<close> finds it;
  the flag is set when neither load returned an error.
\<close>

definition Detector_initialize ::
  "(string \<Rightarrow> json option) \<Rightarrow> filesystem \<Rightarrow> Detector \<Rightarrow> Detector \<times> error option" where
  "Detector_initialize parse fs d =
     (let rulesPath = filepath_Join (Detector.modelPath d) ''rules.json'' in
      case (if os_Stat fs rulesPath then
              (case loadRules parse fs rulesPath of
                 Inl err \<Rightarrow> Inl (Errorf ''failed to load rules'' err)
               | Inr loaded \<Rightarrow> Inr (d\<lparr>rules := loaded\<rparr>))
            else Inr d) of
        Inl err \<Rightarrow> (d, Some err)
      | Inr d \<Rightarrow>
          (let configPath = filepath_Join (Detector.modelPath d) ''config.json'' in
           case (if os_Stat fs configPath then
                   (case loadConfig parse fs configPath of
                      Inl err \<Rightarrow> Inl (Errorf ''failed to load config'' err)
                    | Inr loaded \<Rightarrow>
                        Inr (d\<lparr>confidence := DetectorConfig.Confidence loaded,
                                maxFindings := MaxFindings loaded\<rparr>))
                 else Inr d) of
             Inl err \<Rightarrow> (d, Some err)
           | Inr d \<Rightarrow> (d\<lparr>Detector.initialized := True\<rparr>, None)))"

text \<open>\<open>NewDetector\<close> logs the error of \<open>initialize\<close> and returns the detector all the same.\<close>

definition NewDetector :: "(string \<Rightarrow> json option) \<Rightarrow> filesystem \<Rightarrow> string \<Rightarrow> Detector" where
  "NewDetector parse fs dir =
     (let d = \<lparr>Detector.modelPath = dir, confidence = 3 / 4, maxFindings = 100,
                Detector.initialized = False, rules = []\<rparr>
      in case Detector_initialize parse fs d of (d, Some err) \<Rightarrow> d | (d, None) \<Rightarrow> d)"

definition enhanceFinding :: "Detector \<Rightarrow> Finding \<Rightarrow> Finding" where
  "enhanceFinding d finding =
     (let finding = finding\<lparr>Description := Description finding @ '' (AI Verified)''\<rparr> in
      if Remediation finding = [] then
        finding\<lparr>Remediation := ''AI suggested: Review and sanitize all inputs''\<rparr>
      else finding)"

definition detectAdditionalIssues_body :: "Finding list \<Rightarrow> Rule \<Rightarrow> Finding list" where
  "detectAdditionalIssues_body additionalFindings rule =
     (if Pattern rule \<noteq> [] then
        additionalFindings @
          [\<lparr>ID = ''AI-'' @ Rule.ID rule, Title = Name rule, Description = Rule.Description rule,
            Severity = Rule.Severity rule, Category = Rule.Category rule, Location = [],
            CodeSnippet = [], Timestamp = 0, Remediation = [], Confidence = 0\<rparr>]
      else additionalFindings)"

definition detectAdditionalIssues :: "Detector \<Rightarrow> Finding list \<Rightarrow> Finding list" where
  "detectAdditionalIssues d findings = foldl detectAdditionalIssues_body [] (rules d)"

text \<open>\<open>findings[:d.maxFindings]\<close> panics when the bound is negative.\<close>

definition prioritizeFindings :: "Detector \<Rightarrow> Finding list \<Rightarrow> Finding list option" where
  "prioritizeFindings d findings =
     (if int (length findings) > maxFindings d then
        (if 0 \<le> maxFindings d then Some (take (nat (maxFindings d)) findings) else None)
      else Some findings)"

definition Analyze :: "Detector \<Rightarrow> Finding list \<Rightarrow> (Finding list \<times> error option) option" where
  "Analyze d findings =
     (if \<not> Detector.initialized d then
        Some (findings, Some (ErrorString ''detector not properly initialized''))
      else
        let enhancedFindings = foldl (\<lambda>acc finding. acc @ [enhanceFinding d finding]) [] findings;
            additionalFindings = detectAdditionalIssues d findings;
            enhancedFindings = enhancedFindings @ additionalFindings
        in case prioritizeFindings d enhancedFindings of
             None \<Rightarrow> None
           | Some enhancedFindings \<Rightarrow> Some (enhancedFindings, None))"

section \<open>Scanner (pkg/scanner)\<close>

record Config =
  TargetPath :: string
  ModelPath :: string

record Scanner =
  config :: Config

definition New :: "Config \<Rightarrow> Scanner" where
  "New cfg = \<lparr>config = cfg\<rparr>"

definition analyzeFile :: "Scanner \<Rightarrow> filesystem \<Rightarrow> string \<Rightarrow> Finding list \<times> error option" where
  "analyzeFile s fs path = ([], None)"

text \<open>
  \<open>filepath.Walk\<close> calls the function once per entry of the tree, with the path, whether
  it is a directory, and the error met on the way to it, and stops at the first error
  the function returns. The calls it would make are the list \<open>visits\<close>.
\<close>

fun Scan_walk ::
  "Scanner \<Rightarrow> filesystem \<Rightarrow> (string \<times> bool \<times> error option) list \<Rightarrow> Finding list
     \<Rightarrow> Finding list \<times> error option" where
  "Scan_walk s fs [] findings = (findings, None)"
| "Scan_walk s fs ((path, isDir, err) # visits) findings =
     (case err of
        Some e \<Rightarrow> (findings, Some e)
      | None \<Rightarrow>
          if isDir then Scan_walk s fs visits findings
          else (case analyzeFile s fs path of
                  (fileFindings, Some e) \<Rightarrow> (findings, Some (Errorf (''analyzing '' @ path) e))
                | (fileFindings, None) \<Rightarrow> Scan_walk s fs visits (findings @ fileFindings)))"

definition Scan ::
  "Scanner \<Rightarrow> filesystem \<Rightarrow> (string \<times> bool \<times> error option) list \<Rightarrow> Finding list \<times> error option" where
  "Scan s fs visits = Scan_walk s fs visits []"

section \<open>Aggregator (Reporter.calculateStats)\<close>

text \<open>
  One iteration of the loop body: the total is incremented, then the \<open>switch\<close> on the
  severity increments the counter of the first matching case; there is no default case.
\<close>

definition calculateStats_body :: "Stats \<Rightarrow> Finding \<Rightarrow> Stats" where
  "calculateStats_body stats finding =
     (let stats = stats\<lparr>TotalFindings := TotalFindings stats + 1\<rparr> in
      if Severity finding = Critical then stats\<lparr>CriticalCount := CriticalCount stats + 1\<rparr>
      else if Severity finding = High then stats\<lparr>HighCount := HighCount stats + 1\<rparr>
      else if Severity finding = Medium then stats\<lparr>MediumCount := MediumCount stats + 1\<rparr>
      else if Severity finding = Low then stats\<lparr>LowCount := LowCount stats + 1\<rparr>
      else if Severity finding = Info then stats\<lparr>InfoCount := InfoCount stats + 1\<rparr>
      else stats)"

definition calculateStats :: "Finding list \<Rightarrow> Stats" where
  "calculateStats findings = foldl calculateStats_body Stats_zero findings"

text \<open>The sum of the five per-severity counters, and the severities the switch knows.\<close>

definition severityCounts :: "Stats \<Rightarrow> int" where
  "severityCounts s = CriticalCount s + HighCount s + MediumCount s + LowCount s + InfoCount s"

definition knownSeverity :: "Finding \<Rightarrow> bool" where
  "knownSeverity f = (Severity f \<in> set [Critical, High, Medium, Low, Info])"


section \<open>Notions used to state the properties\<close>

text \<open>A source loads: the file can be read and its bytes decode into the Go value.\<close>

definition readable_as ::
  "(string \<Rightarrow> json option) \<Rightarrow> (json \<Rightarrow> 'a \<Rightarrow> error + 'a) \<Rightarrow> 'a \<Rightarrow> filesystem \<Rightarrow> string \<Rightarrow> bool" where
  "readable_as parse dec zero fs path =
     (case os_ReadFile fs path of
        Inl err \<Rightarrow> False
      | Inr data \<Rightarrow> (case json_Unmarshal parse dec data zero of Inl err \<Rightarrow> False | Inr v \<Rightarrow> True))"

text \<open>
  The score of every category for a finding, the categories that attain the greatest
  score, and whether \<open>calculateScore\<close> panics on some profile of the classifier.
\<close>

definition category_scores :: "Classifier \<Rightarrow> Finding \<Rightarrow> (string \<rightharpoonup> rat)" where
  "category_scores c finding = (\<lambda>category. Option.bind (categoryData c category) (calculateScore c finding))"

definition winners :: "(string \<rightharpoonup> rat) \<Rightarrow> string set" where
  "winners scores = {k. \<exists>s. scores k = Some s \<and> (\<forall>k' s'. scores k' = Some s' \<longrightarrow> s' \<le> s)}"

definition panics :: "Classifier \<Rightarrow> Finding \<Rightarrow> bool" where
  "panics c finding = (\<exists>k features. categoryData c k = Some features \<and> calculateScore c finding features = None)"

text \<open>
  A profile as \<open>loadCategories\<close> builds it: at least one pattern, one weight per pattern,
  every weight the default 1.
\<close>

definition default_profile :: "CategoryFeatures \<Rightarrow> bool" where
  "default_profile features =
     (Patterns features \<noteq> [] \<and> length (Weights features) = length (Patterns features) \<and>
      set (Weights features) \<subseteq> {1})"

text \<open>The last element of a list of scored entries carries the greatest score.\<close>

definition top_last :: "(string \<times> rat) list \<Rightarrow> bool" where
  "top_last rs = (\<forall>r \<in> set rs. snd r \<le> snd (last rs))"

section \<open>Concrete inputs used by the closed theorems\<close>

text \<open>A detector whose one rule spells its severity in lower case, as a rules file may.\<close>

definition lowercase_rule :: Rule where
  "lowercase_rule = \<lparr>Rule.ID = ''RULE-009'', Name = ''Dynamic evaluation'', Pattern = ''eval('',
     Rule.Severity = ''high'', Rule.Category = ''Injection'', Rule.Keywords = [],
     Rule.Description = ''Dynamic code evaluation''\<rparr>"

definition lowercase_detector :: Detector where
  "lowercase_detector = \<lparr>Detector.modelPath = ''model'', confidence = 3 / 4, maxFindings = 100,
     Detector.initialized = True, rules = [lowercase_rule]\<rparr>"

text \<open>A raw finding, three rules, and a detector bounded to two findings.\<close>

definition eval_finding :: Finding where
  "eval_finding = \<lparr>ID = ''F-1'', Title = ''Dynamic evaluation'', Description = ''eval of user input'',
     Severity = High, Category = ''Uncategorized'', Location = ''src/app.js:3'',
     CodeSnippet = ''x = eval(input)'', Timestamp = 0, Remediation = [], Confidence = 0\<rparr>"

definition three_rules :: "Rule list" where
  "three_rules =
     [\<lparr>Rule.ID = ''RULE-001'', Name = ''SQL Injection Detection'', Pattern = ''SELECT'',
        Rule.Severity = ''HIGH'', Rule.Category = ''Injection'', Rule.Keywords = [''sql''],
        Rule.Description = ''Potential SQL injection vulnerability detected''\<rparr>,
      \<lparr>Rule.ID = ''RULE-002'', Name = ''Hardcoded Credentials'', Pattern = ''password'',
        Rule.Severity = ''CRITICAL'', Rule.Category = ''Security'', Rule.Keywords = [''secret''],
        Rule.Description = ''Hardcoded credentials detected in code''\<rparr>,
      \<lparr>Rule.ID = ''RULE-003'', Name = ''Insecure File Operations'', Pattern = ''os.Open('',
        Rule.Severity = ''MEDIUM'', Rule.Category = ''FileSystem'', Rule.Keywords = [''file''],
        Rule.Description = ''Potential file operation without proper validation''\<rparr>]"

definition bounded_detector :: Detector where
  "bounded_detector = \<lparr>Detector.modelPath = ''model'', confidence = 3 / 4, maxFindings = 2,
     Detector.initialized = True, rules = three_rules\<rparr>"

text \<open>
  A classifier whose two categories have the same profile, so that they tie on every
  finding.
\<close>

definition tied_features :: CategoryFeatures where
  "tied_features = \<lparr>Patterns = [''eval(''], CategoryFeatures.Keywords = [], Weights = [1],
     CategoryFeatures.Threshold = 4 / 5\<rparr>"

definition tied_classifier :: Classifier where
  "tied_classifier = \<lparr>Classifier.modelPath = ''model'', threshold = 4 / 5, categories = [],
     Classifier.initialized = True,
     modelConfig = \<lparr>ModelConfig.Threshold = 4 / 5, BatchSize = 32, EnableCache = True\<rparr>,
     categoryData = [''Injection'' \<mapsto> tied_features, ''Security'' \<mapsto> tied_features]\<rparr>"

text \<open>
  File systems and syntax checks: one where nothing exists, one where nothing parses, and
  one where \<open>model/rules.json\<close> exists and cannot be read.
\<close>

definition no_files :: filesystem where
  "no_files path = Absent"

definition no_json :: "string \<Rightarrow> json option" where
  "no_json data = None"

definition unreadable_rules :: filesystem where
  "unreadable_rules path = (if path = ''model/rules.json'' then Unreadable else Absent)"

text \<open>
  The document of \<open>configs/rules.json\<close> (a backslash is \<open>CHR 0x5C\<close>, the quotes are
  \<open>CHR 0x27\<close> and \<open>CHR 0x22\<close>), the rules it holds, and a configuration for the
  classifier. In the model directory the bytes of the two files are abbreviated;
  \<open>model_parse\<close> reads them as these documents.
\<close>

definition sql_pattern :: string where
  "sql_pattern = ''(?i)(SELECT|INSERT|UPDATE|DELETE).*'' @ [CHR 0x5C] @ ''$'' @ [CHR 0x5C] @ ''{''"

definition credentials_pattern :: string where
  "credentials_pattern = ''(?i)(password|secret|key)'' @ [CHR 0x5C] @ ''s*='' @ [CHR 0x5C]
     @ ''s*['' @ [CHR 0x27, CHR 0x22] @ '']'' @ [CHR 0x5C] @ ''w+['' @ [CHR 0x27, CHR 0x22] @ '']''"

definition file_pattern :: string where
  "file_pattern = ''(?i)os'' @ [CHR 0x5C] @ ''.Open'' @ [CHR 0x5C] @ ''(.*'' @ [CHR 0x5C] @ '')''"

definition shipped_rules_array :: json where
  "shipped_rules_array = JArray [
     JObject [(''id'', JString ''RULE-001''), (''name'', JString ''SQL Injection Detection''),
       (''pattern'', JString sql_pattern),
       (''severity'', JString ''HIGH''), (''category'', JString ''Injection''),
       (''keywords'', JArray [JString ''sql'', JString ''database'', JString ''query'']),
       (''description'', JString ''Potential SQL injection vulnerability detected'')],
     JObject [(''id'', JString ''RULE-002''), (''name'', JString ''Hardcoded Credentials''),
       (''pattern'', JString credentials_pattern),
       (''severity'', JString ''CRITICAL''), (''category'', JString ''Security''),
       (''keywords'', JArray [JString ''credentials'', JString ''password'', JString ''secret'']),
       (''description'', JString ''Hardcoded credentials detected in code'')],
     JObject [(''id'', JString ''RULE-003''), (''name'', JString ''Insecure File Operations''),
       (''pattern'', JString file_pattern),
       (''severity'', JString ''MEDIUM''), (''category'', JString ''FileSystem''),
       (''keywords'', JArray [JString ''file'', JString ''path'', JString ''traversal'']),
       (''description'', JString ''Potential file operation without proper validation'')]]"

definition shipped_rules_members :: "(string \<times> json) list" where
  "shipped_rules_members = [(''rules'', shipped_rules_array)]"

definition shipped_rules :: json where
  "shipped_rules = JObject shipped_rules_members"

definition shipped_rule_list :: "Rule list" where
  "shipped_rule_list =
     [\<lparr>Rule.ID = ''RULE-001'', Name = ''SQL Injection Detection'', Pattern = sql_pattern,
        Rule.Severity = ''HIGH'', Rule.Category = ''Injection'',
        Rule.Keywords = [''sql'', ''database'', ''query''],
        Rule.Description = ''Potential SQL injection vulnerability detected''\<rparr>,
      \<lparr>Rule.ID = ''RULE-002'', Name = ''Hardcoded Credentials'', Pattern = credentials_pattern,
        Rule.Severity = ''CRITICAL'', Rule.Category = ''Security'',
        Rule.Keywords = [''credentials'', ''password'', ''secret''],
        Rule.Description = ''Hardcoded credentials detected in code''\<rparr>,
      \<lparr>Rule.ID = ''RULE-003'', Name = ''Insecure File Operations'', Pattern = file_pattern,
        Rule.Severity = ''MEDIUM'', Rule.Category = ''FileSystem'',
        Rule.Keywords = [''file'', ''path'', ''traversal''],
        Rule.Description = ''Potential file operation without proper validation''\<rparr>]"

definition model_config :: json where
  "model_config = JObject [
     (''modelSettings'', JObject [(''threshold'', JFrac (4 / 5)), (''batchSize'', JInt 32),
        (''enableCache'', JBool True)]),
     (''categories'', JArray [JString ''Injection'', JString ''Security'', JString ''FileSystem''])]"

definition model_fs :: filesystem where
  "model_fs path =
     (if path = ''model/rules.json'' then Content ''<rules.json>''
      else if path = ''model/config.json'' then Content ''<config.json>''
      else Absent)"

definition model_parse :: "string \<Rightarrow> json option" where
  "model_parse data =
     (if data = ''<rules.json>'' then Some shipped_rules
      else if data = ''<config.json>'' then Some model_config
      else None)"

definition model_categories :: "string \<rightharpoonup> CategoryFeatures" where
  "model_categories =
     [''Injection'' \<mapsto> \<lparr>Patterns = [sql_pattern],
         CategoryFeatures.Keywords = [''sql'', ''database'', ''query''], Weights = [1],
         CategoryFeatures.Threshold = 4 / 5\<rparr>,
      ''Security'' \<mapsto> \<lparr>Patterns = [credentials_pattern],
         CategoryFeatures.Keywords = [''credentials'', ''password'', ''secret''], Weights = [1],
         CategoryFeatures.Threshold = 4 / 5\<rparr>,
      ''FileSystem'' \<mapsto> \<lparr>Patterns = [file_pattern],
         CategoryFeatures.Keywords = [''file'', ''path'', ''traversal''], Weights = [1],
         CategoryFeatures.Threshold = 4 / 5\<rparr>]"

definition model_classifier :: Classifier where
  "model_classifier = NewClassifier model_parse model_fs ''model''"

text \<open>A finding whose snippet quotes the pattern text of RULE-001.\<close>

definition sql_finding :: Finding where
  "sql_finding = \<lparr>ID = ''F-2'', Title = ''Rule text in source'',
     Description = ''SQL database query built from input'', Severity = High,
     Category = ''Uncategorized'', Location = ''rules/sql.txt:1'',
     CodeSnippet = ''pattern: '' @ sql_pattern, Timestamp = 0, Remediation = [], Confidence = 0\<rparr>"

text \<open>
  The scenario of the pattern matcher: a source file with an interpolated SQL statement
  under the target path.
\<close>

definition scenario_fs :: filesystem where
  "scenario_fs path =
     (if path = ''src/query.js'' then Content ''SELECT * FROM t WHERE id=${id}''
      else if path = ''model/rules.json'' then Content ''<rules.json>''
      else Absent)"

definition scenario_scanner :: Scanner where
  "scenario_scanner = New \<lparr>TargetPath = ''src'', ModelPath = ''model''\<rparr>"

text \<open>
  A model directory that holds \<open>config.json\<close> only, read once as a configuration with a
  negative bound and once as one with the default values.
\<close>

definition negative_config :: json where
  "negative_config = JObject [(''confidence'', JFrac (3 / 4)), (''maxFindings'', JInt (- 1))]"


definition config_only_fs :: filesystem where
  "config_only_fs path =
     (if path = ''model/config.json'' then Content ''<config.json>'' else Absent)"

definition negative_parse :: "string \<Rightarrow> json option" where
  "negative_parse data = (if data = ''<config.json>'' then Some negative_config else None)"


section \<open>Loading: when the constructors leave a component initialized\<close>


lemma foldl_snoc_map: "foldl (\<lambda>acc x. acc @ [g x]) a xs = a @ map g xs"
  by (induction xs arbitrary: a) auto

lemma foldl_detectAdditionalIssues_body:
  "foldl detectAdditionalIssues_body a rs =
     a @ map (\<lambda>rule. \<lparr>ID = ''AI-'' @ Rule.ID rule, Title = Name rule,
                Description = Rule.Description rule, Severity = Rule.Severity rule,
                Category = Rule.Category rule, Location = [], CodeSnippet = [], Timestamp = 0,
                Remediation = [], Confidence = 0\<rparr>)
           (filter (\<lambda>rule. Pattern rule \<noteq> []) rs)"
  by (induction rs arbitrary: a) (auto simp: detectAdditionalIssues_body_def)

lemma loadRules_readable:
  "(\<exists>rs. loadRules parse fs path = Inr rs) = readable_as parse decode_Rules [] fs path"
  by (auto simp: loadRules_def readable_as_def split: sum.splits)

lemma loadConfig_readable:
  "(\<exists>cfg. loadConfig parse fs path = Inr cfg)
     = readable_as parse decode_DetectorConfig DetectorConfig_zero fs path"
  by (auto simp: loadConfig_def readable_as_def split: sum.splits)

lemma NewDetector_initialized:
  "Detector.initialized (NewDetector parse fs dir) =
     ((\<not> os_Stat fs (filepath_Join dir ''rules.json'')
        \<or> readable_as parse decode_Rules [] fs (filepath_Join dir ''rules.json'')) \<and>
      (\<not> os_Stat fs (filepath_Join dir ''config.json'')
        \<or> readable_as parse decode_DetectorConfig DetectorConfig_zero fs
             (filepath_Join dir ''config.json'')))"
  unfolding loadRules_readable [symmetric] loadConfig_readable [symmetric]
  by (auto simp: NewDetector_def Detector_initialize_def Let_def split: sum.splits prod.splits option.splits)

lemma Classifier_loadConfig_ok:
  "(snd (Classifier_loadConfig parse fs c path) = None)
     = readable_as parse decode_classifierConfig classifierConfig_zero fs path"
  by (auto simp: Classifier_loadConfig_def readable_as_def split: sum.splits)

lemma Classifier_loadConfig_initialized:
  "Classifier.initialized (fst (Classifier_loadConfig parse fs c path)) = Classifier.initialized c"
  by (auto simp: Classifier_loadConfig_def split: sum.splits)

lemma Classifier_loadConfig_modelPath:
  "Classifier.modelPath (fst (Classifier_loadConfig parse fs c path)) = Classifier.modelPath c"
  by (auto simp: Classifier_loadConfig_def split: sum.splits)

lemma loadCategories_ok:
  "(snd (loadCategories parse fs c path) = None)
     = readable_as parse decode_rulesData \<lparr>Rules = []\<rparr> fs path"
  by (auto simp: loadCategories_def readable_as_def split: sum.splits)

lemma loadCategories_initialized:
  "Classifier.initialized (fst (loadCategories parse fs c path)) = Classifier.initialized c"
  by (auto simp: loadCategories_def split: sum.splits)

lemma Classifier_initialize_initialized:
  assumes "\<not> Classifier.initialized c"
  shows "Classifier.initialized (fst (Classifier_initialize parse fs c)) =
     (readable_as parse decode_classifierConfig classifierConfig_zero fs
        (filepath_Join (Classifier.modelPath c) ''config.json'') \<and>
      readable_as parse decode_rulesData \<lparr>Rules = []\<rparr> fs
        (filepath_Join (Classifier.modelPath c) ''rules.json''))"
proof -
  let ?cp = "filepath_Join (Classifier.modelPath c) ''config.json''"
  let ?rp = "filepath_Join (Classifier.modelPath c) ''rules.json''"
  obtain c1 e1 where l1: "Classifier_loadConfig parse fs c ?cp = (c1, e1)"
    by fastforce
  have i1: "Classifier.initialized c1 = Classifier.initialized c"
    using Classifier_loadConfig_initialized [where parse = parse and fs = fs and c = c and path = ?cp] l1
    by simp
  have m1: "Classifier.modelPath c1 = Classifier.modelPath c"
    using Classifier_loadConfig_modelPath [where parse = parse and fs = fs and c = c and path = ?cp] l1
    by simp
  have r1: "(e1 = None) = readable_as parse decode_classifierConfig classifierConfig_zero fs ?cp"
    using Classifier_loadConfig_ok [where parse = parse and fs = fs and c = c and path = ?cp] l1
    by simp
  obtain c2 e2 where l2: "loadCategories parse fs c1 ?rp = (c2, e2)"
    by fastforce
  have i2: "Classifier.initialized c2 = Classifier.initialized c1"
    using loadCategories_initialized [where parse = parse and fs = fs and c = c1 and path = ?rp] l2
    by simp
  have r2: "(e2 = None) = readable_as parse decode_rulesData \<lparr>Rules = []\<rparr> fs ?rp"
    using loadCategories_ok [where parse = parse and fs = fs and c = c1 and path = ?rp] l2
    by simp
  show ?thesis
  proof (cases e1)
    case None
    then show ?thesis
      using l1 l2 m1 i1 i2 r1 r2 assms
      by (cases e2) (simp_all add: Classifier_initialize_def)
  next
    case (Some e)
    then show ?thesis
      using l1 i1 r1 assms by (simp add: Classifier_initialize_def)
  qed
qed

lemma NewClassifier_initialized:
  "Classifier.initialized (NewClassifier parse fs dir) =
     (readable_as parse decode_classifierConfig classifierConfig_zero fs
        (filepath_Join dir ''config.json'') \<and>
      readable_as parse decode_rulesData \<lparr>Rules = []\<rparr> fs (filepath_Join dir ''rules.json''))"
proof -
  let ?c = "\<lparr>Classifier.modelPath = dir, threshold = 4 / 5, categories = [],
              Classifier.initialized = False, modelConfig = ModelConfig_zero,
              categoryData = Map.empty\<rparr>"
  have "NewClassifier parse fs dir = fst (Classifier_initialize parse fs ?c)"
    by (simp add: NewClassifier_def split: prod.splits option.splits)
  then show ?thesis
    using Classifier_initialize_initialized [where c = ?c and parse = parse and fs = fs] by simp
qed

section \<open>Sorting, ranging over maps and the best category\<close>


lemma set_sort_insert: "set (sort_insert lt x ys) = insert x (set ys)"
  by (induction ys) auto

lemma sort_insert_not_Nil: "sort_insert lt x ys \<noteq> []"
  by (cases ys) auto

lemma last_sort_insert:
  "last (sort_insert lt x ys) = (if \<forall>y \<in> set ys. lt x y then x else last ys)"
  by (induction ys) (auto simp: sort_insert_not_Nil)

lemma top_last_sort_insert:
  assumes "top_last rs"
  shows "top_last (sort_insert (\<lambda>a b. snd a > snd b) x rs)"
proof (cases "\<forall>y \<in> set rs. snd x > snd y")
  case True
  then show ?thesis
    by (auto simp: top_last_def last_sort_insert set_sort_insert)
next
  case False
  then obtain y where y: "y \<in> set rs" "snd x \<le> snd y" by force
  then have "snd x \<le> snd (last rs)" using assms by (force simp: top_last_def)
  then show ?thesis using False assms
    by (auto simp: top_last_def last_sort_insert set_sort_insert)
qed

lemma foldl_sort_insert:
  "top_last acc \<Longrightarrow>
   top_last (foldl (\<lambda>done x. sort_insert (\<lambda>a b. snd a > snd b) x done) acc xs) \<and>
   set (foldl (\<lambda>done x. sort_insert (\<lambda>a b. snd a > snd b) x done) acc xs) = set acc \<union> set xs"
proof (induction xs arbitrary: acc)
  case Nil
  then show ?case by simp
next
  case (Cons x xs)
  show ?case
    using Cons.IH [OF top_last_sort_insert [OF Cons.prems, of x]]
    by (simp add: set_sort_insert)
qed

lemma hd_sort_Slice:
  fixes xs :: "(string \<times> rat) list"
  assumes "xs \<noteq> []"
  shows "\<exists>best rest. sort_Slice (\<lambda>a b. snd a > snd b) xs = best # rest \<and> best \<in> set xs \<and>
           (\<forall>e \<in> set xs. snd e \<le> snd best)"
proof -
  let ?rs = "foldl (\<lambda>done x. sort_insert (\<lambda>a b. snd a > snd b) x done) [] xs"
  have t: "top_last ?rs" and s: "set ?rs = set xs"
    using foldl_sort_insert [of "[]" xs] by (simp_all add: top_last_def)
  have ne: "?rs \<noteq> []" using s assms by auto
  then obtain best rest where br: "rev ?rs = best # rest"
    by (cases "rev ?rs") auto
  have "hd (rev ?rs) = last ?rs" using ne by (simp add: hd_rev)
  then have b: "best = last ?rs" using br by simp
  have h: "sort_Slice (\<lambda>a b. snd a > snd b) xs = best # rest"
    unfolding sort_Slice_def by (rule br)
  have m: "best \<in> set xs" using ne s last_in_set b by blast
  have u: "\<forall>e \<in> set xs. snd e \<le> snd best" using t s b by (simp add: top_last_def)
  show ?thesis using h m u by blast
qed

lemma set_range_map: "set (range_map order m) = {(k, v). k \<in> set order \<and> m k = Some v}"
  by (induction order) (auto simp: range_map_def split: option.splits)

lemma getBestCategory_empty:
  assumes "iteration_order order scores" and "dom scores = {}"
  shows "getBestCategory order scores = ([], 0)"
proof -
  have "order = []" using assms by (simp add: iteration_order_def)
  then show ?thesis by (simp add: getBestCategory_def range_map_def sort_Slice_def)
qed

lemma getBestCategory_max:
  assumes "iteration_order order scores" and "dom scores \<noteq> {}"
  shows "scores (fst (getBestCategory order scores)) = Some (snd (getBestCategory order scores)) \<and>
         (\<forall>k v. scores k = Some v \<longrightarrow> v \<le> snd (getBestCategory order scores))"
proof -
  have s: "set (range_map order scores) = {(k, v). scores k = Some v}"
    using assms(1) by (auto simp: set_range_map iteration_order_def)
  then have "range_map order scores \<noteq> []" using assms(2) by auto
  from hd_sort_Slice [OF this] obtain best rest where
    b: "sort_Slice (\<lambda>a b. snd a > snd b) (range_map order scores) = best # rest"
       "best \<in> set (range_map order scores)"
       "\<forall>e \<in> set (range_map order scores). snd e \<le> snd best"
    by blast
  have g: "getBestCategory order scores = best" using b(1) by (simp add: getBestCategory_def)
  show ?thesis using b(2,3) unfolding g s by force
qed


lemma Classify_scores_None:
  "(Classify_scores c f es acc = None) = (\<exists>e \<in> set es. calculateScore c f (snd e) = None)"
proof (induction es arbitrary: acc)
  case Nil
  then show ?case by simp
next
  case (Cons e es)
  obtain k features where e: "e = (k, features)" by (cases e)
  show ?case
  proof (cases "calculateScore c f features")
    case None
    then show ?thesis using e by simp
  next
    case (Some s)
    then show ?thesis using e by (simp add: Cons.IH)
  qed
qed

lemma Classify_scores_Some:
  "distinct (map fst es) \<Longrightarrow> Classify_scores c f es acc = Some scores \<Longrightarrow>
   scores = (\<lambda>k. case map_of es k of None \<Rightarrow> acc k | Some features \<Rightarrow> calculateScore c f features)"
proof (induction es arbitrary: acc)
  case Nil
  then show ?case by simp
next
  case (Cons e es)
  obtain k features where e: "e = (k, features)" by (cases e)
  from Cons.prems(2) e obtain s where s: "calculateScore c f features = Some s"
    and r: "Classify_scores c f es (acc(k \<mapsto> s)) = Some scores"
    by (auto split: option.splits)
  have d: "distinct (map fst es)" and n: "map_of es k = None"
    using Cons.prems(1) e by (auto simp: map_of_eq_None_iff)
  show ?case
    unfolding Cons.IH [OF d r] using e s n by (auto simp: fun_eq_iff split: option.splits)
qed

lemma map_fst_range_map: "map fst (range_map order m) = filter (\<lambda>k. m k \<noteq> None) order"
  by (induction order) (auto simp: range_map_def split: option.splits)

lemma map_of_range_map:
  "map_of (range_map order m) k = (if k \<in> set order then m k else None)"
  by (induction order) (auto simp: range_map_def split: option.splits)

lemma Classify_scores_range:
  assumes "iteration_order order (categoryData c)"
  shows "Classify_scores c f (range_map order (categoryData c)) Map.empty =
           (if panics c f then None else Some (category_scores c f))"
proof (cases "panics c f")
  case True
  then obtain k features where kf: "categoryData c k = Some features"
      "calculateScore c f features = None"
    by (auto simp: panics_def)
  then have "k \<in> set order" using assms by (auto simp: iteration_order_def)
  then have "(k, features) \<in> set (range_map order (categoryData c))"
    using kf by (simp add: set_range_map)
  then show ?thesis using True kf(2) by (force simp: Classify_scores_None)
next
  case False
  then have "Classify_scores c f (range_map order (categoryData c)) Map.empty \<noteq> None"
    by (auto simp: Classify_scores_None set_range_map panics_def)
  then obtain scores where
    s: "Classify_scores c f (range_map order (categoryData c)) Map.empty = Some scores"
    by auto
  have d: "distinct (map fst (range_map order (categoryData c)))"
    using assms by (simp add: map_fst_range_map iteration_order_def)
  have "scores = category_scores c f"
    unfolding Classify_scores_Some [OF d s]
    using assms
    by (auto simp: fun_eq_iff map_of_range_map category_scores_def iteration_order_def
        split: option.splits)
  then show ?thesis using s False by simp
qed

lemma dom_category_scores:
  "\<not> panics c f \<Longrightarrow> dom (category_scores c f) = dom (categoryData c)"
  by (force simp: category_scores_def panics_def dom_def Option.bind_eq_Some_conv)

lemma Classify_eq:
  assumes "iteration_order order1 (categoryData c)"
  shows "Classify c order1 order2 f =
     (if \<not> Classifier.initialized c then
        Some (f, Some (ErrorString ''classifier not initialized''))
      else if panics c f then None
      else if snd (getBestCategory order2 (category_scores c f)) \<ge> threshold c then
        Some (f\<lparr>Category := fst (getBestCategory order2 (category_scores c f)),
                Confidence := snd (getBestCategory order2 (category_scores c f))\<rparr>, None)
      else Some (f, None))"
  by (simp add: Classify_def Classify_scores_range [OF assms] split: prod.splits)

lemma best_score_unique:
  assumes "iteration_order order scores" and "iteration_order order' scores"
  shows "snd (getBestCategory order scores) = snd (getBestCategory order' scores)"
proof (cases "dom scores = {}")
  case True
  then show ?thesis
    using getBestCategory_empty [OF assms(1)] getBestCategory_empty [OF assms(2)] by simp
next
  case False
  show ?thesis
    using getBestCategory_max [OF assms(1) False] getBestCategory_max [OF assms(2) False]
    by (meson order.antisym)
qed

lemma best_category_winner:
  assumes "iteration_order order scores" and "dom scores \<noteq> {}"
  shows "fst (getBestCategory order scores) \<in> winners scores"
  using getBestCategory_max [OF assms] by (auto simp: winners_def)

lemma best_category_unique:
  assumes "iteration_order order scores" and "iteration_order order' scores"
    and "winners scores \<subseteq> {k}"
  shows "getBestCategory order scores = getBestCategory order' scores"
proof (cases "dom scores = {}")
  case True
  then show ?thesis
    using getBestCategory_empty [OF assms(1)] getBestCategory_empty [OF assms(2)] by simp
next
  case False
  have "fst (getBestCategory order scores) = k" "fst (getBestCategory order' scores) = k"
    using best_category_winner [OF assms(1) False] best_category_winner [OF assms(2) False]
      assms(3) by auto
  then show ?thesis
    using best_score_unique [OF assms(1,2)] by (simp add: prod_eq_iff)
qed

section \<open>Properties of the aggregator\<close>

lemma foldl_calculateStats_body:
  "TotalFindings (foldl calculateStats_body s fs) = TotalFindings s + int (length fs) \<and>
   severityCounts (foldl calculateStats_body s fs)
     = severityCounts s + int (length (filter knownSeverity fs))"
proof (induction fs arbitrary: s)
  case Nil
  then show ?case by simp
next
  case (Cons f fs)
  have t: "TotalFindings (calculateStats_body s f) = TotalFindings s + 1"
    by (simp add: calculateStats_body_def Let_def)
  have c: "severityCounts (calculateStats_body s f)
             = severityCounts s + (if knownSeverity f then 1 else 0)"
    by (simp add: calculateStats_body_def Let_def severityCounts_def knownSeverity_def)
  show ?case using Cons.IH [of "calculateStats_body s f"] t c by simp
qed

text \<open>
  C8, as stated, fails: the synthesized finding of a rule whose severity is spelt
  \<open>high\<close> is counted in the total and in none of the five severity counters, so the
  counters sum to 0 while the total is 1.
\<close>

theorem calculateStats_unknown_severity:
  "TotalFindings (calculateStats (detectAdditionalIssues lowercase_detector [])) = 1 \<and>
   severityCounts (calculateStats (detectAdditionalIssues lowercase_detector [])) = 0"
  by (simp add: calculateStats_def detectAdditionalIssues_def detectAdditionalIssues_body_def
      lowercase_detector_def lowercase_rule_def calculateStats_body_def Stats_zero_def
      severityCounts_def Critical_def High_def Medium_def Low_def Info_def)

text \<open>
  C8, amended: \<open>calculateStats\<close> is a function of the finding list alone; its total is
  the length of the list, and the five severity counters sum to the number of findings
  whose severity is one of CRITICAL, HIGH, MEDIUM, LOW and INFO. That sum never exceeds
  the total and equals it when every finding has one of the five severities.
\<close>

theorem calculateStats_counts:
  "TotalFindings (calculateStats findings) = int (length findings) \<and>
   severityCounts (calculateStats findings) = int (length (filter knownSeverity findings)) \<and>
   severityCounts (calculateStats findings) \<le> TotalFindings (calculateStats findings) \<and>
   ((\<forall>f \<in> set findings. knownSeverity f) \<longrightarrow>
      severityCounts (calculateStats findings) = TotalFindings (calculateStats findings))"
proof -
  have z: "TotalFindings Stats_zero = 0" "severityCounts Stats_zero = 0"
    by (simp_all add: Stats_zero_def severityCounts_def)
  have a: "TotalFindings (calculateStats findings) = int (length findings)"
    using foldl_calculateStats_body [of Stats_zero findings] z by (simp add: calculateStats_def)
  have b: "severityCounts (calculateStats findings) = int (length (filter knownSeverity findings))"
    using foldl_calculateStats_body [of Stats_zero findings] z by (simp add: calculateStats_def)
  have c: "length (filter knownSeverity findings) \<le> length findings" by simp
  have d: "(\<forall>f \<in> set findings. knownSeverity f) \<longrightarrow> filter knownSeverity findings = findings"
    by simp
  show ?thesis using a b c d by auto
qed

theorem calculateStats_counts_witness:
  "knownSeverity (Finding_zero\<lparr>Severity := High\<rparr>) \<and>
   TotalFindings (calculateStats [Finding_zero\<lparr>Severity := High\<rparr>]) = 1 \<and>
   severityCounts (calculateStats [Finding_zero\<lparr>Severity := High\<rparr>]) = 1"
proof -
  have k: "knownSeverity (Finding_zero\<lparr>Severity := High\<rparr>)"
    by (simp add: knownSeverity_def)
  show ?thesis
    using k calculateStats_counts [of "[Finding_zero\<lparr>Severity := High\<rparr>]"] by simp
qed

section \<open>Properties of the enhancer and prioritizer\<close>

text \<open>
  C6: \<open>enhanceFinding\<close> appends the marker to the description, sets the default
  remediation exactly when the remediation is empty and keeps every other field;
  \<open>detectAdditionalIssues\<close> yields, in rule order, one finding for every rule with a
  non-empty pattern, built from the rule alone (id \<open>AI-\<close> followed by the rule id, the
  rule's name, description, severity and category), whatever findings it is given.
\<close>

theorem enhancer_enriches_and_synthesizes:
  "Description (enhanceFinding d finding) = Description finding @ '' (AI Verified)'' \<and>
   Remediation (enhanceFinding d finding) =
     (if Remediation finding = [] then ''AI suggested: Review and sanitize all inputs''
      else Remediation finding) \<and>
   enhanceFinding d finding =
     finding\<lparr>Description := Description (enhanceFinding d finding),
             Remediation := Remediation (enhanceFinding d finding)\<rparr> \<and>
   detectAdditionalIssues d findings =
     map (\<lambda>rule. \<lparr>ID = ''AI-'' @ Rule.ID rule, Title = Name rule,
                 Description = Rule.Description rule, Severity = Rule.Severity rule,
                 Category = Rule.Category rule, Location = [], CodeSnippet = [], Timestamp = 0,
                 Remediation = [], Confidence = 0\<rparr>)
         (filter (\<lambda>rule. Pattern rule \<noteq> []) (rules d))"
  by (simp add: enhanceFinding_def Let_def detectAdditionalIssues_def
      foldl_detectAdditionalIssues_body)

lemma prioritizeFindings_take:
  "0 \<le> maxFindings d \<Longrightarrow> prioritizeFindings d xs = Some (take (nat (maxFindings d)) xs)"
  by (simp add: prioritizeFindings_def)

lemma decode_negative_config:
  "decode_DetectorConfig negative_config DetectorConfig_zero
     = Inr \<lparr>DetectorConfig.Confidence = 3 / 4, MaxFindings = - 1\<rparr>"
  by (simp add: decode_DetectorConfig_def decode_struct_def negative_config_def
      decode_DetectorConfig_field_def json_field_def ToLower_def toLower_byte_def
      decode_float64_def decode_int_def DetectorConfig_zero_def)


lemma NewDetector_negative:
  "NewDetector negative_parse config_only_fs ''model'' =
     \<lparr>Detector.modelPath = ''model'', confidence = 3 / 4, maxFindings = - 1,
      Detector.initialized = True, rules = []\<rparr>"
  by (simp add: NewDetector_def Detector_initialize_def os_Stat_def config_only_fs_def
      filepath_Join_def loadConfig_def os_ReadFile_def json_Unmarshal_def negative_parse_def
      decode_negative_config)


text \<open>
  C7, as stated, fails: a \<open>config.json\<close> with \<open>maxFindings\<close> -1 is loaded as it is, the
  detector is initialized, and the bound is below the length of every sequence, the empty
  one included; \<open>Analyze\<close> then panics in the slice expression and returns no output.
\<close>

theorem negative_bound_panics:
  "Detector.initialized (NewDetector negative_parse config_only_fs ''model'') \<and>
   maxFindings (NewDetector negative_parse config_only_fs ''model'') = - 1 \<and>
   Analyze (NewDetector negative_parse config_only_fs ''model'') [eval_finding] = None \<and>
   Analyze (NewDetector negative_parse config_only_fs ''model'') [] = None"
  by (simp add: NewDetector_negative Analyze_def detectAdditionalIssues_def
      prioritizeFindings_def)

text \<open>
  C7, amended: on an initialized detector whose bound is not negative, \<open>Analyze\<close> returns
  the first \<open>maxFindings\<close> elements of the enhanced input findings followed by the
  synthesized ones, in that order, with no re-sorting and no error; when the bound is
  below the length of that sequence the output has exactly \<open>maxFindings\<close> elements.
\<close>

theorem Analyze_concatenates_and_truncates:
  assumes "Detector.initialized d" and "0 \<le> maxFindings d"
  shows "\<exists>out. Analyze d findings = Some (out, None) \<and>
           out = take (nat (maxFindings d))
                   (map (enhanceFinding d) findings @ detectAdditionalIssues d findings) \<and>
           (maxFindings d
              < int (length (map (enhanceFinding d) findings @ detectAdditionalIssues d findings))
            \<longrightarrow> int (length out) = maxFindings d)"
proof -
  let ?all = "map (enhanceFinding d) findings @ detectAdditionalIssues d findings"
  have a: "Analyze d findings = Some (take (nat (maxFindings d)) ?all, None)"
    using assms by (simp add: Analyze_def Let_def foldl_snoc_map prioritizeFindings_take)
  have "maxFindings d < int (length ?all) \<longrightarrow>
          int (min (length ?all) (nat (maxFindings d))) = maxFindings d"
    using assms(2) by linarith
  then have l: "maxFindings d < int (length ?all) \<longrightarrow>
          int (length (take (nat (maxFindings d)) ?all)) = maxFindings d"
    by (simp only: length_take)
  show ?thesis using a l by blast
qed

theorem Analyze_concatenates_and_truncates_witness:
  "Detector.initialized bounded_detector \<and> 0 \<le> maxFindings bounded_detector \<and>
   Analyze bounded_detector [eval_finding] =
     Some ([enhanceFinding bounded_detector eval_finding,
            \<lparr>ID = ''AI-RULE-001'', Title = ''SQL Injection Detection'',
              Description = ''Potential SQL injection vulnerability detected'',
              Severity = ''HIGH'', Category = ''Injection'', Location = [], CodeSnippet = [],
              Timestamp = 0, Remediation = [], Confidence = 0\<rparr>], None)"
proof -
  have i: "Detector.initialized bounded_detector" and m: "0 \<le> maxFindings bounded_detector"
    by (simp_all add: bounded_detector_def)
  have t: "take (nat (maxFindings bounded_detector))
             (map (enhanceFinding bounded_detector) [eval_finding]
                @ detectAdditionalIssues bounded_detector [eval_finding])
           = [enhanceFinding bounded_detector eval_finding,
            \<lparr>ID = ''AI-RULE-001'', Title = ''SQL Injection Detection'',
              Description = ''Potential SQL injection vulnerability detected'',
              Severity = ''HIGH'', Category = ''Injection'', Location = [], CodeSnippet = [],
              Timestamp = 0, Remediation = [], Confidence = 0\<rparr>]"
    by (simp add: bounded_detector_def three_rules_def detectAdditionalIssues_def
        detectAdditionalIssues_body_def)
  show ?thesis
    using i m t Analyze_concatenates_and_truncates [OF i m, of "[eval_finding]"] by auto
qed

section \<open>The concrete inputs evaluated\<close>

lemma calc_tied: "calculateScore c eval_finding tied_features = Some 1"
  by (simp add: calculateScore_def eval_finding_def tied_features_def)

lemma decode_shipped_rules_array:
  "decode_slice decode_Rule Rule_zero shipped_rules_array = Inr shipped_rule_list"
  by (simp add: shipped_rules_array_def decode_slice_def decode_Rule_def decode_struct_def
      decode_Rule_field_def json_field_def ToLower_def toLower_byte_def decode_string_def
      Rule_zero_def shipped_rule_list_def)

lemma decode_shipped_rules:
  "decode_rulesData shipped_rules \<lparr>Rules = []\<rparr> = Inr \<lparr>Rules = shipped_rule_list\<rparr>"
  unfolding shipped_rules_def shipped_rules_members_def decode_rulesData_def decode_struct_def
  by (simp add: decode_rulesData_field_def decode_shipped_rules_array)
     (simp add: json_field_def ToLower_def toLower_byte_def)

lemma fold_shipped_rule_list:
  "foldl (loadCategories_body (4 / 5)) Map.empty shipped_rule_list = model_categories"
  by (simp add: shipped_rule_list_def loadCategories_body_def CategoryFeatures_zero_def
      model_categories_def fun_upd_twist)

lemma decode_model_config:
  "decode_classifierConfig model_config classifierConfig_zero =
     Inr \<lparr>ModelSettings = \<lparr>ModelConfig.Threshold = 4 / 5, BatchSize = 32, EnableCache = True\<rparr>,
          Categories = [''Injection'', ''Security'', ''FileSystem'']\<rparr>"
  by (simp add: decode_classifierConfig_def decode_struct_def model_config_def
      decode_classifierConfig_field_def json_field_def ToLower_def toLower_byte_def
      decode_ModelConfig_def decode_ModelConfig_field_def decode_float64_def decode_int_def
      decode_bool_def decode_slice_def decode_string_def classifierConfig_zero_def
      ModelConfig_zero_def)

lemma NewClassifier_model:
  "NewClassifier model_parse model_fs ''model'' =
     \<lparr>Classifier.modelPath = ''model'', threshold = 4 / 5,
      categories = [''Injection'', ''Security'', ''FileSystem''],
      Classifier.initialized = True,
      modelConfig = \<lparr>ModelConfig.Threshold = 4 / 5, BatchSize = 32, EnableCache = True\<rparr>,
      categoryData = model_categories\<rparr>"
  by (simp add: NewClassifier_def Classifier_initialize_def Classifier_loadConfig_def
      loadCategories_def os_ReadFile_def json_Unmarshal_def model_fs_def model_parse_def
      filepath_Join_def decode_model_config decode_shipped_rules fold_shipped_rule_list)

lemma model_classifier_eq:
  "model_classifier =
     \<lparr>Classifier.modelPath = ''model'', threshold = 4 / 5,
      categories = [''Injection'', ''Security'', ''FileSystem''],
      Classifier.initialized = True,
      modelConfig = \<lparr>ModelConfig.Threshold = 4 / 5, BatchSize = 32, EnableCache = True\<rparr>,
      categoryData = model_categories\<rparr>"
  by (simp add: model_classifier_def NewClassifier_model)

lemma HasPrefix_refl: "HasPrefix s s"
  by (induction s) simp_all

lemma Contains_refl: "Contains s s"
  by (cases s) (simp_all add: HasPrefix_refl)

lemma sql_finding_matches:
  "Contains (CodeSnippet sql_finding) sql_pattern"
  "Contains (ToLower (Description sql_finding)) (ToLower ''sql'')"
  "Contains (ToLower (Description sql_finding)) (ToLower ''database'')"
  "Contains (ToLower (Description sql_finding)) (ToLower ''query'')"
  by (simp_all add: sql_finding_def Contains_refl ToLower_def toLower_byte_def)

lemma model_classifier_scores:
  "calculateScore c sql_finding \<lparr>Patterns = [sql_pattern],
      CategoryFeatures.Keywords = [''sql'', ''database'', ''query''], Weights = [1],
      CategoryFeatures.Threshold = 4 / 5\<rparr> = Some 1"
  "calculateScore c sql_finding \<lparr>Patterns = [credentials_pattern],
         CategoryFeatures.Keywords = [''credentials'', ''password'', ''secret''], Weights = [1],
         CategoryFeatures.Threshold = 4 / 5\<rparr> = Some 0"
  "calculateScore c sql_finding \<lparr>Patterns = [file_pattern],
         CategoryFeatures.Keywords = [''file'', ''path'', ''traversal''], Weights = [1],
         CategoryFeatures.Threshold = 4 / 5\<rparr> = Some 0"
  by (simp_all add: calculateScore_def sql_finding_def sql_pattern_def credentials_pattern_def
      file_pattern_def ToLower_def toLower_byte_def)

lemma model_category_scores:
  "category_scores model_classifier sql_finding =
     [''Injection'' \<mapsto> 1, ''Security'' \<mapsto> 0, ''FileSystem'' \<mapsto> 0]"
  by (auto simp: category_scores_def model_classifier_def NewClassifier_model model_categories_def
      model_classifier_scores fun_eq_iff)

lemma model_winners: "winners (category_scores model_classifier sql_finding) \<subseteq> {''Injection''}"
proof
  fix k assume "k \<in> winners (category_scores model_classifier sql_finding)"
  then obtain s where s: "category_scores model_classifier sql_finding k = Some s"
    and m: "\<forall>k' s'. category_scores model_classifier sql_finding k' = Some s' \<longrightarrow> s' \<le> s"
    by (auto simp: winners_def)
  have "category_scores model_classifier sql_finding ''Injection'' = Some 1"
    by (simp add: model_category_scores)
  then have "1 \<le> s" using m by blast
  then show "k \<in> {''Injection''}"
    using s by (auto simp: model_category_scores split: if_splits)
qed

lemma model_orders:
  "iteration_order [''Injection'', ''Security'', ''FileSystem''] (categoryData model_classifier)"
  "iteration_order [''FileSystem'', ''Security'', ''Injection''] (categoryData model_classifier)"
  by (auto simp: iteration_order_def model_classifier_def NewClassifier_model model_categories_def)

section \<open>Properties of the classifier\<close>

text \<open>
  C1, as stated, fails. The two categories of \<open>tied_classifier\<close> both score 1 on the
  finding. When the range over the scores visits \<open>Security\<close> first the finding is
  assigned \<open>Security\<close>, although \<open>Injection\<close> is the lexicographically smaller name; when it
  visits \<open>Injection\<close> first the finding is assigned \<open>Injection\<close>. Two runs on the same
  finding and the same profiles differ in the category.
\<close>

theorem Classify_tie_follows_iteration_order:
  "Classify tied_classifier [''Injection'', ''Security''] [''Security'', ''Injection''] eval_finding
     = Some (eval_finding\<lparr>Category := ''Security'', Confidence := 1\<rparr>, None) \<and>
   Classify tied_classifier [''Injection'', ''Security''] [''Injection'', ''Security''] eval_finding
     = Some (eval_finding\<lparr>Category := ''Injection'', Confidence := 1\<rparr>, None) \<and>
   ''Injection'' < ''Security''"
  by (simp add: Classify_def tied_classifier_def range_map_def calc_tied getBestCategory_def
      sort_Slice_def)

text \<open>
  C1, amended: classification is a function of the finding, the profiles and the orders
  in which the runtime ranges over the two maps. Whatever these orders are, two runs agree
  on whether the call panics, on the error returned and on the confidence of the finding;
  they agree on the whole result, category included, whenever at most one category
  attains the greatest score. When the classifier holds a profile, a finding that is
  reclassified gets a category that attains the greatest score; which one among several
  is decided by the iteration order, not by the lexicographic order of the names.
\<close>

theorem Classify_deterministic_up_to_ties:
  assumes "iteration_order order1 (categoryData c)" and "iteration_order order2 (categoryData c)"
    and "iteration_order order1' (categoryData c)" and "iteration_order order2' (categoryData c)"
  shows "map_option (\<lambda>(g, err). (Confidence g, err)) (Classify c order1 order2 f)
           = map_option (\<lambda>(g, err). (Confidence g, err)) (Classify c order1' order2' f) \<and>
         ((\<exists>k. winners (category_scores c f) \<subseteq> {k}) \<longrightarrow>
            Classify c order1 order2 f = Classify c order1' order2' f) \<and>
         (\<forall>g err. Classify c order1 order2 f = Some (g, err) \<and> g \<noteq> f \<and> dom (categoryData c) \<noteq> {}
            \<longrightarrow> Category g \<in> winners (category_scores c f))"
proof (cases "Classifier.initialized c \<and> \<not> panics c f")
  case False
  then show ?thesis
    by (auto simp: Classify_eq [OF assms(1)] Classify_eq [OF assms(3)])
next
  case True
  then have d: "dom (category_scores c f) = dom (categoryData c)"
    by (simp add: dom_category_scores)
  have o: "iteration_order order2 (category_scores c f)" "iteration_order order2' (category_scores c f)"
    using assms(2,4) d by (simp_all add: iteration_order_def)
  have s: "snd (getBestCategory order2 (category_scores c f))
             = snd (getBestCategory order2' (category_scores c f))"
    by (rule best_score_unique [OF o])
  have a: "map_option (\<lambda>(g, err). (Confidence g, err)) (Classify c order1 order2 f)
           = map_option (\<lambda>(g, err). (Confidence g, err)) (Classify c order1' order2' f)"
    using True s by (simp add: Classify_eq [OF assms(1)] Classify_eq [OF assms(3)])
  have b: "(\<exists>k. winners (category_scores c f) \<subseteq> {k}) \<longrightarrow>
            Classify c order1 order2 f = Classify c order1' order2' f"
  proof
    assume "\<exists>k. winners (category_scores c f) \<subseteq> {k}"
    then obtain k where "winners (category_scores c f) \<subseteq> {k}" ..
    from best_category_unique [OF o this] show "Classify c order1 order2 f = Classify c order1' order2' f"
      by (simp add: Classify_eq [OF assms(1)] Classify_eq [OF assms(3)])
  qed
  have w: "Category g \<in> winners (category_scores c f)"
    if "Classify c order1 order2 f = Some (g, err)" "g \<noteq> f" "dom (categoryData c) \<noteq> {}" for g err
  proof -
    have "fst (getBestCategory order2 (category_scores c f)) \<in> winners (category_scores c f)"
      using best_category_winner [OF o(1)] d that(3) by simp
    then show ?thesis
      using that(1,2) True by (auto simp: Classify_eq [OF assms(1)] split: if_splits)
  qed
  show ?thesis using a b w by blast
qed

theorem Classify_deterministic_up_to_ties_witness:
  "iteration_order [''Injection'', ''Security'', ''FileSystem''] (categoryData model_classifier) \<and>
   iteration_order [''FileSystem'', ''Security'', ''Injection''] (categoryData model_classifier) \<and>
   winners (category_scores model_classifier sql_finding) \<subseteq> {''Injection''} \<and>
   Classify model_classifier [''Injection'', ''Security'', ''FileSystem'']
       [''Injection'', ''Security'', ''FileSystem''] sql_finding
     = Classify model_classifier [''FileSystem'', ''Security'', ''Injection'']
         [''FileSystem'', ''Security'', ''Injection''] sql_finding"
  using model_orders model_winners
    Classify_deterministic_up_to_ties [OF model_orders(1) model_orders(1) model_orders(2)
      model_orders(2), of sql_finding]
  by blast

text \<open>
  C5: whatever \<open>Classify\<close> returns, the id, title, description, severity, location,
  snippet, timestamp and remediation of the finding are those of the input. On an
  initialized classifier whose winning score reaches the threshold the finding is the
  input with the category and the confidence overwritten by the winning category and its
  score, and no error is returned; in every other case the finding is the input itself.
  The winning category attains the greatest score whenever there is a profile at all.
\<close>

theorem Classify_changes_category_and_confidence_only:
  assumes "iteration_order order1 (categoryData c)"
    and "iteration_order order2 (categoryData c)"
    and "Classify c order1 order2 finding = Some (finding', err)"
  shows "ID finding' = ID finding \<and> Title finding' = Title finding \<and>
     Description finding' = Description finding \<and> Severity finding' = Severity finding \<and>
     Location finding' = Location finding \<and> CodeSnippet finding' = CodeSnippet finding \<and>
     Timestamp finding' = Timestamp finding \<and> Remediation finding' = Remediation finding \<and>
     (if Classifier.initialized c
           \<and> threshold c \<le> snd (getBestCategory order2 (category_scores c finding))
      then finding' = finding\<lparr>Category := fst (getBestCategory order2 (category_scores c finding)),
                              Confidence := snd (getBestCategory order2 (category_scores c finding))\<rparr>
           \<and> err = None
      else finding' = finding) \<and>
     (Classifier.initialized c \<and> dom (categoryData c) \<noteq> {} \<longrightarrow>
        fst (getBestCategory order2 (category_scores c finding))
          \<in> winners (category_scores c finding))"
proof -
  have np: "Classifier.initialized c \<longrightarrow> \<not> panics c finding"
    using assms(3) by (auto simp: Classify_eq [OF assms(1)] split: if_splits)
  have w: "Classifier.initialized c \<and> dom (categoryData c) \<noteq> {} \<longrightarrow>
        fst (getBestCategory order2 (category_scores c finding))
          \<in> winners (category_scores c finding)"
  proof
    assume a: "Classifier.initialized c \<and> dom (categoryData c) \<noteq> {}"
    then have d: "dom (category_scores c finding) = dom (categoryData c)"
      using np by (simp add: dom_category_scores)
    then have "iteration_order order2 (category_scores c finding)"
      using assms(2) by (simp add: iteration_order_def)
    from best_category_winner [OF this] a d
    show "fst (getBestCategory order2 (category_scores c finding))
          \<in> winners (category_scores c finding)" by simp
  qed
  show ?thesis
    using assms(3) w by (auto simp: Classify_eq [OF assms(1)] split: if_splits)
qed

theorem Classify_changes_category_and_confidence_only_witness:
  "iteration_order [''Injection'', ''Security''] (categoryData tied_classifier) \<and>
   Classify tied_classifier [''Injection'', ''Security''] [''Injection'', ''Security''] eval_finding
     = Some (eval_finding\<lparr>Category := ''Injection'', Confidence := 1\<rparr>, None) \<and>
   Title (eval_finding\<lparr>Category := ''Injection'', Confidence := 1\<rparr>) = Title eval_finding \<and>
   ''Injection'' \<in> winners (category_scores tied_classifier eval_finding)"
proof -
  have o: "iteration_order [''Injection'', ''Security''] (categoryData tied_classifier)"
    by (auto simp: iteration_order_def tied_classifier_def)
  have r: "Classify tied_classifier [''Injection'', ''Security''] [''Injection'', ''Security'']
             eval_finding
           = Some (eval_finding\<lparr>Category := ''Injection'', Confidence := 1\<rparr>, None)"
    by (simp add: Classify_def tied_classifier_def range_map_def calc_tied getBestCategory_def
        sort_Slice_def)
  have i: "Classifier.initialized tied_classifier" "dom (categoryData tied_classifier) \<noteq> {}"
    by (simp_all add: tied_classifier_def)
  have t: "threshold tied_classifier \<le> 1" by (simp add: tied_classifier_def)
  have "fst (getBestCategory [''Injection'', ''Security''] (category_scores tied_classifier eval_finding))
          \<in> winners (category_scores tied_classifier eval_finding)"
    using Classify_changes_category_and_confidence_only [OF o o r] i by simp
  moreover have "getBestCategory [''Injection'', ''Security'']
                   (category_scores tied_classifier eval_finding) = (''Injection'', 1)"
    by (simp add: getBestCategory_def range_map_def category_scores_def tied_classifier_def
        calc_tied sort_Slice_def)
  ultimately show ?thesis using o r by simp
qed

lemma calculateScore_patterns_all:
  "\<forall>p \<in> set ps. Contains snippet p \<Longrightarrow> i + length ps \<le> length ws \<Longrightarrow> set ws \<subseteq> {1} \<Longrightarrow>
   calculateScore_patterns snippet ps ws i s = Some (s + of_nat (length ps))"
proof (induction ps arbitrary: i s)
  case Nil
  then show ?case by simp
next
  case (Cons p ps)
  have i: "i < length ws" using Cons.prems(2) by simp
  then have "ws ! i \<in> set ws" by simp
  then have w: "ws ! i = 1" using Cons.prems(3) by auto
  have "calculateScore_patterns snippet ps ws (Suc i) (s + 1) = Some (s + 1 + of_nat (length ps))"
    using Cons.prems by (intro Cons.IH) simp_all
  then show ?case using Cons.prems(1) i w by simp
qed

lemma calculateScore_keywords_all:
  "\<forall>k \<in> set ks. Contains (ToLower d) (ToLower k) \<Longrightarrow>
   calculateScore_keywords d ks s = s + of_nat (length ks) * (1 / 2)"
  by (induction ks arbitrary: s) (simp_all add: algebra_simps)

lemma calculateScore_full:
  assumes "default_profile features"
    and "\<forall>p \<in> set (Patterns features). Contains (CodeSnippet finding) p"
    and "\<forall>k \<in> set (CategoryFeatures.Keywords features).
           Contains (ToLower (Description finding)) (ToLower k)"
  shows "calculateScore c finding features = Some 1"
proof -
  let ?P = "length (Patterns features)" and ?K = "length (CategoryFeatures.Keywords features)"
  have p: "calculateScore_patterns (CodeSnippet finding) (Patterns features) (Weights features) 0 0
             = Some (of_nat ?P)"
    using calculateScore_patterns_all [OF assms(2), of 0 "Weights features" 0] assms(1)
    by (simp add: default_profile_def)
  have k: "calculateScore_keywords (Description finding) (CategoryFeatures.Keywords features)
             (of_nat ?P) = of_nat ?P + of_nat ?K * (1 / 2)"
    by (rule calculateScore_keywords_all [OF assms(3)])
  have "0 < ?P" using assms(1) by (simp add: default_profile_def)
  then have pos: "(0::rat) < of_nat ?P + of_nat ?K * (1 / 2)"
    by (simp add: add_pos_nonneg)
  show ?thesis using p k pos by (simp add: calculateScore_def Let_def)
qed

lemma loadCategories_body_profile:
  assumes "\<forall>k features. m k = Some features \<longrightarrow> default_profile features"
    and "loadCategories_body thr m rule k = Some features"
  shows "default_profile features"
proof (cases "k = Rule.Category rule")
  case False
  then have "m k = Some features"
    using assms(2) by (simp add: loadCategories_body_def Let_def)
  then show ?thesis using assms(1) by blast
next
  case True
  define base where
    "base = (case m (Rule.Category rule) of None \<Rightarrow> CategoryFeatures_zero | Some f \<Rightarrow> f)"
  have b: "length (Weights base) = length (Patterns base) \<and> set (Weights base) \<subseteq> {1}"
  proof (cases "m (Rule.Category rule)")
    case None
    then show ?thesis by (simp add: base_def CategoryFeatures_zero_def)
  next
    case (Some a)
    then have "default_profile a" using assms(1) by blast
    then show ?thesis using Some by (simp add: base_def default_profile_def)
  qed
  have f: "features = base\<lparr>Patterns := Patterns base @ [Pattern rule],
             CategoryFeatures.Keywords := CategoryFeatures.Keywords base @ Rule.Keywords rule,
             Weights := Weights base @ [1], CategoryFeatures.Threshold := thr\<rparr>"
    using assms(2) True by (simp add: loadCategories_body_def Let_def base_def)
  show ?thesis using b unfolding f default_profile_def by simp
qed

lemma foldl_loadCategories_body_profile:
  "\<forall>k features. m k = Some features \<longrightarrow> default_profile features \<Longrightarrow>
   foldl (loadCategories_body thr) m rs k = Some features \<Longrightarrow> default_profile features"
proof (induction rs arbitrary: m)
  case Nil
  then show ?case by simp
next
  case (Cons r rs)
  have "\<forall>k features. loadCategories_body thr m r k = Some features \<longrightarrow> default_profile features"
    using loadCategories_body_profile [OF Cons.prems(1)] by blast
  from Cons.IH [OF this] Cons.prems(2) show ?case by simp
qed

lemma loadCategories_profile:
  assumes "\<forall>k features. categoryData c k = Some features \<longrightarrow> default_profile features"
    and "categoryData (fst (loadCategories parse fs c path)) k = Some features"
  shows "default_profile features"
  using assms foldl_loadCategories_body_profile [OF assms(1)]
  by (auto simp: loadCategories_def split: sum.splits)

lemma Classifier_loadConfig_categoryData:
  "categoryData (fst (Classifier_loadConfig parse fs c path)) = categoryData c"
  by (auto simp: Classifier_loadConfig_def split: sum.splits)

lemma Classifier_initialize_profile:
  assumes "\<forall>k features. categoryData c k = Some features \<longrightarrow> default_profile features"
    and "categoryData (fst (Classifier_initialize parse fs c)) k = Some features"
  shows "default_profile features"
proof -
  let ?cp = "filepath_Join (Classifier.modelPath c) ''config.json''"
  obtain c1 e1 where l1: "Classifier_loadConfig parse fs c ?cp = (c1, e1)"
    by fastforce
  have d1: "categoryData c1 = categoryData c"
    using Classifier_loadConfig_categoryData [where parse = parse and fs = fs and c = c and path = ?cp] l1
    by simp
  let ?rp = "filepath_Join (Classifier.modelPath c1) ''rules.json''"
  obtain c2 e2 where l2: "loadCategories parse fs c1 ?rp = (c2, e2)"
    by fastforce
  have p2: "categoryData c2 k = Some features \<Longrightarrow> default_profile features"
    using loadCategories_profile [where c = c1 and parse = parse and fs = fs and path = ?rp
        and k = k and features = features] assms(1) d1 l2
    by simp
  show ?thesis
  proof (cases e1)
    case None
    then show ?thesis
      using l1 l2 p2 assms(2) by (cases e2) (simp_all add: Classifier_initialize_def)
  next
    case (Some e)
    then show ?thesis using l1 d1 assms by (simp add: Classifier_initialize_def)
  qed
qed

lemma NewClassifier_profile:
  assumes "categoryData (NewClassifier parse fs dir) k = Some features"
  shows "default_profile features"
proof -
  let ?c = "\<lparr>Classifier.modelPath = dir, threshold = 4 / 5, categories = [],
              Classifier.initialized = False, modelConfig = ModelConfig_zero,
              categoryData = Map.empty\<rparr>"
  have n: "NewClassifier parse fs dir = fst (Classifier_initialize parse fs ?c)"
    by (simp add: NewClassifier_def split: prod.splits option.splits)
  show ?thesis
    using Classifier_initialize_profile [where c = ?c and parse = parse and fs = fs and k = k
        and features = features] assms
    unfolding n by simp
qed

text \<open>
  C4: every profile held by a classifier that \<open>NewClassifier\<close> returns has one weight per
  pattern, each the default 1; for a finding whose snippet contains every pattern string
  of the profile and whose description contains every keyword of it up to letter case,
  \<open>calculateScore\<close> returns exactly 1.
\<close>

theorem full_match_scores_one:
  assumes "categoryData (NewClassifier parse fs dir) category = Some features"
    and "\<forall>pattern \<in> set (Patterns features). Contains (CodeSnippet finding) pattern"
    and "\<forall>keyword \<in> set (CategoryFeatures.Keywords features).
           Contains (ToLower (Description finding)) (ToLower keyword)"
  shows "length (Weights features) = length (Patterns features) \<and>
         set (Weights features) \<subseteq> {1} \<and>
         calculateScore (NewClassifier parse fs dir) finding features = Some 1"
  using NewClassifier_profile [OF assms(1)] calculateScore_full [OF _ assms(2,3)]
  by (simp add: default_profile_def)

theorem full_match_scores_one_witness:
  "categoryData (NewClassifier model_parse model_fs ''model'') ''Injection''
     = Some \<lparr>Patterns = [sql_pattern],
              CategoryFeatures.Keywords = [''sql'', ''database'', ''query''], Weights = [1],
              CategoryFeatures.Threshold = 4 / 5\<rparr> \<and>
   Contains (CodeSnippet sql_finding) sql_pattern \<and>
   Contains (ToLower (Description sql_finding)) (ToLower ''query'') \<and>
   calculateScore (NewClassifier model_parse model_fs ''model'') sql_finding
     \<lparr>Patterns = [sql_pattern],
      CategoryFeatures.Keywords = [''sql'', ''database'', ''query''], Weights = [1],
      CategoryFeatures.Threshold = 4 / 5\<rparr> = Some 1"
proof -
  let ?features = "\<lparr>Patterns = [sql_pattern],
      CategoryFeatures.Keywords = [''sql'', ''database'', ''query''], Weights = [1],
      CategoryFeatures.Threshold = 4 / 5\<rparr>"
  have c: "categoryData (NewClassifier model_parse model_fs ''model'') ''Injection''
             = Some ?features"
    by (simp add: NewClassifier_model model_categories_def)
  have p: "\<forall>pattern \<in> set (Patterns ?features). Contains (CodeSnippet sql_finding) pattern"
    using sql_finding_matches by simp
  have k: "\<forall>keyword \<in> set (CategoryFeatures.Keywords ?features).
             Contains (ToLower (Description sql_finding)) (ToLower keyword)"
    using sql_finding_matches by simp
  show ?thesis
    using c sql_finding_matches full_match_scores_one [OF c p k] by simp
qed

section \<open>Properties of initialization\<close>



lemma Classify_not_initialized:
  "\<not> Classifier.initialized c \<Longrightarrow>
   Classify c order1 order2 finding
     = Some (finding, Some (ErrorString ''classifier not initialized''))"
  by (simp add: Classify_def)

lemma Analyze_not_initialized:
  "\<not> Detector.initialized d \<Longrightarrow>
   Analyze d findings = Some (findings, Some (ErrorString ''detector not properly initialized''))"
  by (simp add: Analyze_def)






text \<open>
  C3, as stated, fails: when both sources are missing from the model directory,
  \<open>NewDetector\<close> returns an initialized detector with no rules, and \<open>Analyze\<close> goes on
  to process the findings on that empty rule set without an error.
\<close>

theorem absent_sources_leave_detector_running:
  "Detector.initialized (NewDetector no_json no_files ''model'') \<and>
   rules (NewDetector no_json no_files ''model'') = [] \<and>
   Analyze (NewDetector no_json no_files ''model'') [eval_finding] =
     Some ([eval_finding\<lparr>Description := ''eval of user input (AI Verified)'',
                          Remediation := ''AI suggested: Review and sanitize all inputs''\<rparr>],
           None)"
  by (simp add: NewDetector_def Detector_initialize_def os_Stat_def no_files_def Analyze_def
      detectAdditionalIssues_def prioritizeFindings_def enhanceFinding_def eval_finding_def)

text \<open>
  C3, amended: the classifier returned by \<open>NewClassifier\<close> is initialized exactly when
  both \<open>config.json\<close> and \<open>rules.json\<close> can be read and decoded; the detector returned by
  \<open>NewDetector\<close> is initialized exactly when each of the two files is either not found by
  \<open>os.Stat\<close> or can be read and decoded. The constructors return the component in both
  cases; on an uninitialized one every \<open>Classify\<close> and \<open>Analyze\<close> returns the
  not-initialized error and leaves its input unchanged. With both files absent the
  detector runs on its defaults and an empty rule set.
\<close>

theorem failed_load_leaves_component_uninitialized:
  "(Classifier.initialized (NewClassifier parse fs dir) =
      (readable_as parse decode_classifierConfig classifierConfig_zero fs
         (filepath_Join dir ''config.json'') \<and>
       readable_as parse decode_rulesData \<lparr>Rules = []\<rparr> fs (filepath_Join dir ''rules.json''))) \<and>
   (Detector.initialized (NewDetector parse fs dir) =
      ((\<not> os_Stat fs (filepath_Join dir ''rules.json'')
          \<or> readable_as parse decode_Rules [] fs (filepath_Join dir ''rules.json'')) \<and>
       (\<not> os_Stat fs (filepath_Join dir ''config.json'')
          \<or> readable_as parse decode_DetectorConfig DetectorConfig_zero fs
               (filepath_Join dir ''config.json'')))) \<and>
   (\<not> Classifier.initialized (NewClassifier parse fs dir) \<longrightarrow>
      Classify (NewClassifier parse fs dir) order1 order2 finding
        = Some (finding, Some (ErrorString ''classifier not initialized''))) \<and>
   (\<not> Detector.initialized (NewDetector parse fs dir) \<longrightarrow>
      Analyze (NewDetector parse fs dir) findings
        = Some (findings, Some (ErrorString ''detector not properly initialized''))) \<and>
   (\<not> os_Stat fs (filepath_Join dir ''rules.json'')
      \<and> \<not> os_Stat fs (filepath_Join dir ''config.json'') \<longrightarrow>
      NewDetector parse fs dir =
        \<lparr>Detector.modelPath = dir, confidence = 3 / 4, maxFindings = 100,
         Detector.initialized = True, rules = []\<rparr>)"
proof -
  have e: "\<not> os_Stat fs (filepath_Join dir ''rules.json'')
      \<and> \<not> os_Stat fs (filepath_Join dir ''config.json'') \<longrightarrow>
      NewDetector parse fs dir =
        \<lparr>Detector.modelPath = dir, confidence = 3 / 4, maxFindings = 100,
         Detector.initialized = True, rules = []\<rparr>"
    by (simp add: NewDetector_def Detector_initialize_def)
  show ?thesis
    using e NewClassifier_initialized [of parse fs dir] NewDetector_initialized [of parse fs dir]
    by (simp add: Classify_not_initialized Analyze_not_initialized)
qed

theorem failed_load_leaves_component_uninitialized_witness:
  "os_Stat unreadable_rules (filepath_Join ''model'' ''rules.json'') \<and>
   \<not> Detector.initialized (NewDetector no_json unreadable_rules ''model'') \<and>
   Analyze (NewDetector no_json unreadable_rules ''model'') [eval_finding]
     = Some ([eval_finding], Some (ErrorString ''detector not properly initialized'')) \<and>
   \<not> Classifier.initialized (NewClassifier no_json unreadable_rules ''model'') \<and>
   Classify (NewClassifier no_json unreadable_rules ''model'') [] [] eval_finding
     = Some (eval_finding, Some (ErrorString ''classifier not initialized'')) \<and>
   \<not> os_Stat no_files (filepath_Join ''model'' ''rules.json'') \<and>
   \<not> os_Stat no_files (filepath_Join ''model'' ''config.json'') \<and>
   NewDetector no_json no_files ''model'' =
     \<lparr>Detector.modelPath = ''model'', confidence = 3 / 4, maxFindings = 100,
      Detector.initialized = True, rules = []\<rparr>"
proof -
  have s: "os_Stat unreadable_rules (filepath_Join ''model'' ''rules.json'')"
    "\<not> readable_as no_json decode_Rules [] unreadable_rules (filepath_Join ''model'' ''rules.json'')"
    "\<not> readable_as no_json decode_classifierConfig classifierConfig_zero unreadable_rules
         (filepath_Join ''model'' ''config.json'')"
    by (simp_all add: os_Stat_def unreadable_rules_def filepath_Join_def readable_as_def
        os_ReadFile_def)
  have n: "\<not> os_Stat no_files (filepath_Join ''model'' ''rules.json'')"
    "\<not> os_Stat no_files (filepath_Join ''model'' ''config.json'')"
    by (simp_all add: os_Stat_def no_files_def)
  show ?thesis
    using s n
      failed_load_leaves_component_uninitialized [of no_json unreadable_rules "''model''"
        "[]" "[]" eval_finding "[eval_finding]"]
      failed_load_leaves_component_uninitialized [of no_json no_files "''model''"
        "[]" "[]" eval_finding "[eval_finding]"]
    by simp
qed

text \<open>
  C10: when \<open>rules.json\<close> holds a JSON object, as the shipped \<open>configs/rules.json\<close> does,
  \<open>loadRules\<close> returns a type error of the decoder, \<open>Detector.initialize\<close> returns that
  error wrapped and changes nothing, the detector of \<open>NewDetector\<close> is left uninitialized
  and every \<open>Analyze\<close> on it returns the not-initialized error; \<open>loadCategories\<close> of the
  classifier takes the same object as its struct with the field \<open>rules\<close>, and so decodes
  the shipped document and folds its three rules into the profiles.
\<close>

theorem rules_object_breaks_detector:
  assumes "fs (filepath_Join dir ''rules.json'') = Content data"
    and "parse data = Some (JObject members)"
  shows "loadRules parse fs (filepath_Join dir ''rules.json'')
           = Inl (UnmarshalTypeError ''object'') \<and>
         Detector_initialize parse fs (d\<lparr>Detector.modelPath := dir\<rparr>)
           = (d\<lparr>Detector.modelPath := dir\<rparr>,
              Some (Errorf ''failed to load rules'' (UnmarshalTypeError ''object''))) \<and>
         \<not> Detector.initialized (NewDetector parse fs dir) \<and>
         Analyze (NewDetector parse fs dir) findings
           = Some (findings, Some (ErrorString ''detector not properly initialized'')) \<and>
         (\<forall>decoded. decode_rulesData (JObject members) \<lparr>Rules = []\<rparr> = Inr decoded \<longrightarrow>
            loadCategories parse fs c (filepath_Join dir ''rules.json'')
              = (c\<lparr>categoryData := foldl (loadCategories_body (threshold c)) (categoryData c)
                                       (Rules decoded)\<rparr>, None)) \<and>
         (JObject members = shipped_rules \<longrightarrow>
            loadCategories parse fs c (filepath_Join dir ''rules.json'')
              = (c\<lparr>categoryData := foldl (loadCategories_body (threshold c)) (categoryData c)
                                       shipped_rule_list\<rparr>, None))"
proof -
  let ?rp = "filepath_Join dir ''rules.json''"
  have l: "loadRules parse fs ?rp = Inl (UnmarshalTypeError ''object'')"
    using assms
    by (simp add: loadRules_def os_ReadFile_def json_Unmarshal_def decode_Rules_def
        decode_slice_def)
  have s: "os_Stat fs ?rp" using assms(1) by (simp add: os_Stat_def)
  have i: "Detector_initialize parse fs (d\<lparr>Detector.modelPath := dir\<rparr>)
           = (d\<lparr>Detector.modelPath := dir\<rparr>,
              Some (Errorf ''failed to load rules'' (UnmarshalTypeError ''object'')))"
    using l s by (simp add: Detector_initialize_def)
  have n: "\<not> Detector.initialized (NewDetector parse fs dir)"
    using l s by (simp add: NewDetector_def Detector_initialize_def)
  have c: "JObject members = shipped_rules \<longrightarrow>
            loadCategories parse fs c ?rp
              = (c\<lparr>categoryData := foldl (loadCategories_body (threshold c)) (categoryData c)
                                       shipped_rule_list\<rparr>, None)"
    using assms
    by (simp add: loadCategories_def os_ReadFile_def json_Unmarshal_def decode_shipped_rules)
  have g: "\<forall>decoded. decode_rulesData (JObject members) \<lparr>Rules = []\<rparr> = Inr decoded \<longrightarrow>
            loadCategories parse fs c ?rp
              = (c\<lparr>categoryData := foldl (loadCategories_body (threshold c)) (categoryData c)
                                       (Rules decoded)\<rparr>, None)"
    using assms by (simp add: loadCategories_def os_ReadFile_def json_Unmarshal_def)
  show ?thesis using l i n c g by (simp add: Analyze_not_initialized)
qed

theorem rules_object_breaks_detector_witness:
  "model_fs (filepath_Join ''model'' ''rules.json'') = Content ''<rules.json>'' \<and>
   model_parse ''<rules.json>'' = Some shipped_rules \<and>
   loadRules model_parse model_fs (filepath_Join ''model'' ''rules.json'')
     = Inl (UnmarshalTypeError ''object'') \<and>
   \<not> Detector.initialized (NewDetector model_parse model_fs ''model'') \<and>
   Analyze (NewDetector model_parse model_fs ''model'') [eval_finding]
     = Some ([eval_finding], Some (ErrorString ''detector not properly initialized'')) \<and>
   categoryData (fst (loadCategories model_parse model_fs tied_classifier
                       (filepath_Join ''model'' ''rules.json''))) ''FileSystem''
     = Some \<lparr>Patterns = [file_pattern],
              CategoryFeatures.Keywords = [''file'', ''path'', ''traversal''], Weights = [1],
              CategoryFeatures.Threshold = 4 / 5\<rparr>"
proof -
  have f: "model_fs (filepath_Join ''model'' ''rules.json'') = Content ''<rules.json>''"
    by (simp add: model_fs_def filepath_Join_def)
  have p: "model_parse ''<rules.json>'' = Some (JObject shipped_rules_members)"
    by (simp add: model_parse_def shipped_rules_def)
  have t: "(foldl (loadCategories_body (threshold tied_classifier)) (categoryData tied_classifier)
             shipped_rule_list) ''FileSystem''
           = Some \<lparr>Patterns = [file_pattern],
              CategoryFeatures.Keywords = [''file'', ''path'', ''traversal''], Weights = [1],
              CategoryFeatures.Threshold = 4 / 5\<rparr>"
    by (simp add: shipped_rule_list_def loadCategories_body_def CategoryFeatures_zero_def
        tied_classifier_def)
  show ?thesis
    using f p t
      rules_object_breaks_detector [where fs = model_fs and parse = model_parse
        and dir = "''model''" and data = "''<rules.json>''" and members = shipped_rules_members
        and d = lowercase_detector and findings = "[eval_finding]" and c = tied_classifier,
        OF f p]
    by (simp add: shipped_rules_def)
qed

section \<open>Properties of the scanner\<close>

lemma Scan_walk_result:
  "Scan_walk s fs visits acc =
     (acc, Option.bind (List.find (\<lambda>v. snd (snd v) \<noteq> None) visits) (\<lambda>v. snd (snd v)))"
  by (induction visits arbitrary: acc) (auto simp: analyzeFile_def split: option.splits)

text \<open>
  \<open>analyzeFile\<close> is a placeholder that consults neither the file nor any rule: \<open>Scan\<close>
  returns no finding for any tree, together with the first error that the walk reports,
  if any.
\<close>

lemma Scan_no_findings:
  "analyzeFile s fs path = ([], None) \<and>
   Scan s fs visits =
     ([], Option.bind (List.find (\<lambda>v. snd (snd v) \<noteq> None) visits) (\<lambda>v. snd (snd v)))"
  by (simp add: Scan_def Scan_walk_result analyzeFile_def)

text \<open>
  C2: the claim expects one raw finding of severity HIGH and category Injection when the
  file content \<open>SELECT * FROM t WHERE id=${id}\<close> is scanned. On a tree whose one file
  holds that content, \<open>Scan\<close> returns no finding and no error.
\<close>

theorem Scan_scenario_emits_nothing:
  "Scan scenario_scanner scenario_fs [(''src'', True, None), (''src/query.js'', False, None)]
     = ([], None)"
  by (simp add: Scan_def analyzeFile_def)

end
